theory Spec2Isabelle
  imports Complex_Main
begin

section \<open>JavaScript values and built-ins used by the repository\<close>

text \<open>
  Numbers are modelled exactly: a byte count is a \<open>nat\<close>, a quotient of byte counts is a
  \<open>rat\<close>. A quotient of a safe integer (below \<open>2 ^ 53\<close>) by a power of two is exact in
  IEEE double arithmetic, so on byte counts the model and the doubles agree. A string is
  a \<open>char list\<close> whose characters are UTF-16 code units below 256, that is, the characters
  of Basic Latin and of the Latin-1 Supplement; a string with any other character is
  outside the model. Every exception of the source is a value of \<open>js_error\<close>, and a
  computation that may throw returns \<open>js_error + 'a\<close>.
\<close>

datatype js_error =
    RangeError
  | TypeError
  | Error string
  | SyntaxError
  | AppwriteException string
  | NextRedirect string

text \<open>
  \<^verbatim>\<open>String.prototype.toLowerCase\<close>. Among the code units below 256 the upper-case letters
  are A to Z and the Latin-1 letters U+00C0 to U+00DE without the multiplication sign
  U+00D7; each has its lower-case letter in the same range, and every other character is
  left as it is. The mapping of these characters does not depend on their neighbours.
\<close>

definition upperCaseLetters :: string where
  "upperCaseLetters =
     ''ABCDEFGHIJKLMNOPQRSTUVWXYZ'' @
     [CHR 0xC0, CHR 0xC1, CHR 0xC2, CHR 0xC3, CHR 0xC4, CHR 0xC5, CHR 0xC6, CHR 0xC7,
      CHR 0xC8, CHR 0xC9, CHR 0xCA, CHR 0xCB, CHR 0xCC, CHR 0xCD, CHR 0xCE, CHR 0xCF,
      CHR 0xD0, CHR 0xD1, CHR 0xD2, CHR 0xD3, CHR 0xD4, CHR 0xD5, CHR 0xD6,
      CHR 0xD8, CHR 0xD9, CHR 0xDA, CHR 0xDB, CHR 0xDC, CHR 0xDD, CHR 0xDE]"

definition lowerCaseLetters :: string where
  "lowerCaseLetters =
     ''abcdefghijklmnopqrstuvwxyz'' @
     [CHR 0xE0, CHR 0xE1, CHR 0xE2, CHR 0xE3, CHR 0xE4, CHR 0xE5, CHR 0xE6, CHR 0xE7,
      CHR 0xE8, CHR 0xE9, CHR 0xEA, CHR 0xEB, CHR 0xEC, CHR 0xED, CHR 0xEE, CHR 0xEF,
      CHR 0xF0, CHR 0xF1, CHR 0xF2, CHR 0xF3, CHR 0xF4, CHR 0xF5, CHR 0xF6,
      CHR 0xF8, CHR 0xF9, CHR 0xFA, CHR 0xFB, CHR 0xFC, CHR 0xFD, CHR 0xFE]"

definition toLowerCase_char :: "char \<Rightarrow> char" where
  "toLowerCase_char c =
     (case map_of (zip upperCaseLetters lowerCaseLetters) c of
        None \<Rightarrow> c
      | Some l \<Rightarrow> l)"

definition toLowerCase :: "string \<Rightarrow> string" where
  "toLowerCase s = map toLowerCase_char s"

text \<open>
  \<^verbatim>\<open>String.prototype.split\<close> with a one-character separator: the pieces between the
  separators, in order; the empty string gives one empty piece.
\<close>

fun split_str :: "char \<Rightarrow> string \<Rightarrow> string list" where
  "split_str sep [] = [[]]"
| "split_str sep (c # cs) =
     (if c = sep then [] # split_str sep cs
      else (case split_str sep cs of [] \<Rightarrow> [[c]] | p # ps \<Rightarrow> (c # p) # ps))"

text \<open>\<^verbatim>\<open>Array.prototype.pop\<close>: the last element, \<open>undefined\<close> (here \<open>None\<close>) on the empty array.\<close>

definition pop :: "'a list \<Rightarrow> 'a option" where
  "pop xs = (if xs = [] then None else Some (last xs))"

text \<open>The decimal digits of a non-negative integer, as \<^verbatim>\<open>Number::toString\<close> prints it.\<close>

fun Number_toString :: "nat \<Rightarrow> string" where
  "Number_toString n =
     (if n < 10 then [''0123456789'' ! n]
      else Number_toString (n div 10) @ [''0123456789'' ! (n mod 10)])"

declare Number_toString.simps [simp del]

text \<open>
  \<^verbatim>\<open>Number.prototype.toFixed(f)\<close> as ECMAScript defines it, on the decimal branch
  (values below \<open>10 ^ 21\<close>): a \<open>RangeError\<close> for more than 100 digits; otherwise \<open>n\<close> is the
  integer nearest to \<open>x * 10 ^ f\<close> (the larger one on a tie), its digits are padded with
  zeros on the left to \<open>f + 1\<close> characters, and the point goes before the last \<open>f\<close> of them.
\<close>

definition toFixed :: "rat \<Rightarrow> nat \<Rightarrow> js_error + string" where
  "toFixed x0 f =
     (if f > 100 then Inl RangeError
      else
        let s = (if x0 < 0 then ''-'' else '''');
            x = (if x0 < 0 then - x0 else x0);
            n = nat \<lfloor>x * 10 ^ f + 1 / 2\<rfloor>;
            m = Number_toString n
        in if f = 0 then Inr (s @ m)
           else
             let m' = (if length m \<le> f then replicate (f + 1 - length m) CHR ''0'' @ m else m);
                 k = length m';
                 a = take (k - f) m';
                 b = drop (k - f) m'
             in Inr (s @ a @ ''.'' @ b))"

text \<open>
  \<^verbatim>\<open>Number(str)\<close> on a decimal literal (optional sign, digits, optional point and digits),
  which is what \<open>toFixed\<close> produces.
\<close>

definition digitVal :: "char \<Rightarrow> nat" where
  "digitVal c = of_char c - 48"

definition parseDigits :: "string \<Rightarrow> nat" where
  "parseDigits s = foldl (\<lambda>acc c. 10 * acc + digitVal c) 0 s"

definition Number :: "string \<Rightarrow> rat" where
  "Number s =
     (let neg = (s \<noteq> [] \<and> hd s = CHR ''-'');
          body = (if neg then tl s else s);
          ip = takeWhile (\<lambda>c. c \<noteq> CHR ''.'') body;
          fp = drop (Suc (length ip)) body;
          v = of_nat (parseDigits ip) + of_nat (parseDigits fp) / 10 ^ length fp
      in if neg then - v else v)"

section \<open>The utilities of \<^verbatim>\<open>src/lib/utils.ts\<close>\<close>

text \<open>\<^verbatim>\<open>digits || 1\<close>: an absent or zero \<open>digits\<close> is replaced by 1.\<close>

definition digits_or_1 :: "nat option \<Rightarrow> nat" where
  "digits_or_1 digits = (case digits of None \<Rightarrow> 1 | Some d \<Rightarrow> if d = 0 then 1 else d)"

definition convertFileSize :: "nat \<Rightarrow> nat option \<Rightarrow> js_error + string" where
  "convertFileSize sizeInBytes digits =
     (if sizeInBytes < 1024 then Inr (Number_toString sizeInBytes @ '' Bytes'')
      else if sizeInBytes < 1024 * 1024 then
        (let sizeInKB = of_nat sizeInBytes / 1024
         in map_sum id (\<lambda>s. s @ '' KB'') (toFixed sizeInKB (digits_or_1 digits)))
      else if sizeInBytes < 1024 * 1024 * 1024 then
        (let sizeInMB = of_nat sizeInBytes / (1024 * 1024)
         in map_sum id (\<lambda>s. s @ '' MB'') (toFixed sizeInMB (digits_or_1 digits)))
      else
        (let sizeInGB = of_nat sizeInBytes / (1024 * 1024 * 1024)
         in map_sum id (\<lambda>s. s @ '' GB'') (toFixed sizeInGB (digits_or_1 digits))))"

definition calculatePercentage :: "nat \<Rightarrow> js_error + rat" where
  "calculatePercentage sizeInBytes =
     (let totalSizeInBytes = 2 * 1024 * 1024 * 1024;
          percentage = (of_nat sizeInBytes / totalSizeInBytes) * 100
      in map_sum id Number (toFixed percentage 2))"

definition documentExtensions :: "string list" where
  "documentExtensions =
     [''pdf'', ''doc'', ''docx'', ''txt'', ''xls'', ''xlsx'', ''csv'', ''rtf'', ''ods'',
      ''ppt'', ''odp'', ''md'', ''html'', ''htm'', ''epub'', ''pages'', ''fig'', ''psd'',
      ''ai'', ''indd'', ''xd'', ''sketch'', ''afdesign'', ''afphoto'', ''afphoto'']"

definition imageExtensions :: "string list" where
  "imageExtensions = [''jpg'', ''jpeg'', ''png'', ''gif'', ''bmp'', ''svg'', ''webp'']"

definition videoExtensions :: "string list" where
  "videoExtensions = [''mp4'', ''avi'', ''mov'', ''mkv'', ''webm'']"

definition audioExtensions :: "string list" where
  "audioExtensions = [''mp3'', ''wav'', ''ogg'', ''flac'']"

record file_type =
  ftype :: string
  extension :: string

text \<open>The extension \<open>getFileType\<close> computes: \<^verbatim>\<open>fileName.split(".").pop()?.toLowerCase()\<close>.\<close>

definition fileExtension :: "string \<Rightarrow> string option" where
  "fileExtension fileName = map_option toLowerCase (pop (split_str CHR ''.'' fileName))"

definition getFileType :: "string \<Rightarrow> file_type" where
  "getFileType fileName =
     (case fileExtension fileName of
        None \<Rightarrow> \<lparr>ftype = ''other'', extension = ''''\<rparr>
      | Some ext \<Rightarrow>
          if ext = '''' then \<lparr>ftype = ''other'', extension = ''''\<rparr>
          else if ext \<in> set documentExtensions then \<lparr>ftype = ''document'', extension = ext\<rparr>
          else if ext \<in> set imageExtensions then \<lparr>ftype = ''image'', extension = ext\<rparr>
          else if ext \<in> set videoExtensions then \<lparr>ftype = ''video'', extension = ext\<rparr>
          else if ext \<in> set audioExtensions then \<lparr>ftype = ''audio'', extension = ext\<rparr>
          else \<lparr>ftype = ''other'', extension = ext\<rparr>)"

section \<open>Reading a formatted size\<close>

text \<open>
  The vocabulary of the statements about \<open>convertFileSize\<close>: the numeric part of a result
  is the number before the space, its unit is the word after it; units are ranked
  Bytes, KB, MB, GB, and two results compare by rank first and by numeric part within a unit.
\<close>

definition numericPrefix :: "string \<Rightarrow> rat" where
  "numericPrefix str = Number (takeWhile (\<lambda>c. c \<noteq> CHR '' '') str)"

definition unitSuffix :: "string \<Rightarrow> string" where
  "unitSuffix str = drop 1 (dropWhile (\<lambda>c. c \<noteq> CHR '' '') str)"

definition unitRank :: "string \<Rightarrow> nat" where
  "unitRank u = (if u = ''Bytes'' then 0 else if u = ''KB'' then 1 else if u = ''MB'' then 2 else 3)"

definition formatted_le :: "string \<Rightarrow> string \<Rightarrow> bool" where
  "formatted_le x y \<longleftrightarrow>
     unitRank (unitSuffix x) < unitRank (unitSuffix y)
     \<or> (unitSuffix x = unitSuffix y \<and> numericPrefix x \<le> numericPrefix y)"

definition isDigit :: "char \<Rightarrow> bool" where
  "isDigit c \<longleftrightarrow> c \<in> set ''0123456789''"

definition unitBytes :: "string \<Rightarrow> nat" where
  "unitBytes u =
     (if u = ''Bytes'' then 1 else if u = ''KB'' then 1024
      else if u = ''MB'' then 1024 * 1024 else 1024 * 1024 * 1024)"

definition nearestDecimal :: "nat \<Rightarrow> rat \<Rightarrow> rat" where
  "nearestDecimal f x = of_int \<lfloor>x * 10 ^ f + 1 / 2\<rfloor> / 10 ^ f"

section \<open>The backend-as-a-service and the effects of a server action\<close>

text \<open>
  A JavaScript value that may be \<open>undefined\<close> or \<open>null\<close>; \<open>truthy\<close> is the test of
  \<^verbatim>\<open>if (x)\<close> on it (an object is always truthy).
\<close>

datatype 'a nullable = Undefined | Null | Val 'a

fun truthy :: "'a nullable \<Rightarrow> bool" where
  "truthy (Val _) = True"
| "truthy _ = False"

datatype query =
    Equal string "string list"
  | Contains string "string list"
  | Or "query list"
  | Limit nat
  | OrderAsc string
  | OrderDesc string

record user_data =
  fullName :: string
  email :: string
  avatar :: string
  accountId :: string

record user_doc = user_data +
  user_id :: string

record file_data =
  file_type :: string
  file_name :: string
  file_url :: string
  file_extension :: string
  file_size :: nat
  file_owner :: string
  file_accountId :: string
  file_users :: "string list"
  file_bucketFileId :: string

record file_doc = file_data +
  file_id :: string
  file_updatedAt :: string

record 'a document_list =
  total :: nat
  documents :: "'a list"

record js_file =
  fname :: string
  fsize :: nat

record bucket_file =
  bucket_file_id :: string
  bucket_file_name :: string
  sizeOriginal :: nat

record session =
  session_id :: string
  secret :: string

datatype file_update = SetName string | SetUsers "string list"

text \<open>The requests a server action sends to the backend, with the arguments that matter.\<close>

datatype request =
    CreateEmailToken string
  | CreateSession string string
  | AccountGet
  | DeleteSession string
  | ListUsers "query list"
  | ListFiles "query list"
  | CreateUserDocument user_data
  | CreateFileDocument file_data
  | UpdateFileDocument string file_update
  | DeleteFileDocument string
  | StorageCreateFile js_file
  | StorageDeleteFile string

text \<open>
  The backend is outside the repository. It is a parameter: for every request, whether it
  fails (\<open>Inl\<close> of the exception the SDK throws) or what it returns. The two collections
  have their own listing and creation functions, since their documents differ.
\<close>

record backend =
  account_createEmailToken :: "string \<Rightarrow> js_error + string"
  account_createSession :: "string \<Rightarrow> string \<Rightarrow> js_error + session"
  account_get :: "string \<Rightarrow> js_error + string"
  account_deleteSession :: "string \<Rightarrow> js_error + unit"
  databases_listUsers :: "query list \<Rightarrow> js_error + user_doc document_list"
  databases_listFiles :: "query list \<Rightarrow> js_error + file_doc document_list"
  databases_createUser :: "user_data \<Rightarrow> js_error + user_doc"
  databases_createFile :: "file_data \<Rightarrow> js_error + file_doc"
  databases_updateFile :: "string \<Rightarrow> file_update \<Rightarrow> js_error + file_doc"
  databases_deleteFile :: "string \<Rightarrow> js_error + bool"
  storage_createFile :: "js_file \<Rightarrow> js_error + bucket_file"
  storage_deleteFile :: "string \<Rightarrow> js_error + unit"

datatype logged =
    LogErrorMessage js_error string
  | LogError js_error
  | LogFiles "file_doc document_list"

text \<open>
  What a server action can change: the console, the requests sent so far, the blobs in
  the storage bucket, the session cookie and the revalidated paths.
\<close>

record world =
  console :: "logged list"
  requests :: "request list"
  bucket :: "string list"
  cookie :: "string option"
  revalidated :: "string list"

type_synonym 'a action = "world \<Rightarrow> (js_error + 'a) \<times> world"

definition ret :: "'a \<Rightarrow> 'a action" where
  "ret v = (\<lambda>w. (Inr v, w))"

definition throw :: "js_error \<Rightarrow> 'a action" where
  "throw e = (\<lambda>w. (Inl e, w))"

definition bnd :: "'a action \<Rightarrow> ('a \<Rightarrow> 'b action) \<Rightarrow> 'b action" where
  "bnd m f = (\<lambda>w. case m w of (Inl e, w') \<Rightarrow> (Inl e, w') | (Inr v, w') \<Rightarrow> f v w')"

text \<open>\<^verbatim>\<open>try { m } catch (error) { h(error) }\<close> and \<^verbatim>\<open>try { m } finally { fin }\<close>.\<close>

definition try_catch :: "'a action \<Rightarrow> (js_error \<Rightarrow> 'a action) \<Rightarrow> 'a action" where
  "try_catch m h = (\<lambda>w. case m w of (Inl e, w') \<Rightarrow> h e w' | (Inr v, w') \<Rightarrow> (Inr v, w'))"

definition try_finally :: "'a action \<Rightarrow> unit action \<Rightarrow> 'a action" where
  "try_finally m fin =
     (\<lambda>w. case m w of (r, w') \<Rightarrow>
        (case fin w' of (Inl e, w'') \<Rightarrow> (Inl e, w'') | (Inr _, w'') \<Rightarrow> (r, w'')))"

text \<open>An SDK call: the request is sent, the backend answers.\<close>

definition sdk :: "request \<Rightarrow> js_error + 'a \<Rightarrow> 'a action" where
  "sdk rq answer = (\<lambda>w. (answer, w\<lparr>requests := requests w @ [rq]\<rparr>))"

text \<open>The two storage calls also change the bucket when they succeed.\<close>

definition storage_createFile_call :: "backend \<Rightarrow> js_file \<Rightarrow> bucket_file action" where
  "storage_createFile_call b inputFile =
     bnd (sdk (StorageCreateFile inputFile) (storage_createFile b inputFile))
       (\<lambda>bucketFile w. (Inr bucketFile, w\<lparr>bucket := bucket w @ [bucket_file_id bucketFile]\<rparr>))"

definition storage_deleteFile_call :: "backend \<Rightarrow> string \<Rightarrow> unit action" where
  "storage_deleteFile_call b fileId =
     bnd (sdk (StorageDeleteFile fileId) (storage_deleteFile b fileId))
       (\<lambda>_ w. (Inr (), w\<lparr>bucket := filter (\<lambda>i. i \<noteq> fileId) (bucket w)\<rparr>))"

definition console_log :: "logged \<Rightarrow> unit action" where
  "console_log entry = (\<lambda>w. (Inr (), w\<lparr>console := console w @ [entry]\<rparr>))"

definition revalidatePath :: "string \<Rightarrow> unit action" where
  "revalidatePath path = (\<lambda>w. (Inr (), w\<lparr>revalidated := revalidated w @ [path]\<rparr>))"

text \<open>\<^verbatim>\<open>redirect\<close> of the web framework never returns: it throws its redirect signal.\<close>

definition redirect :: "string \<Rightarrow> unit action" where
  "redirect path = throw (NextRedirect path)"

text \<open>
  \<open>createSessionClient\<close> reads the session cookie and throws when there is none; the
  client it returns is represented by the session secret. \<open>createAdminClient\<close> only
  builds a client object.
\<close>

definition createSessionClient :: "string action" where
  "createSessionClient =
     (\<lambda>w. case cookie w of
        None \<Rightarrow> (Inl (Error ''No session''), w)
      | Some v \<Rightarrow> if v = '''' then (Inl (Error ''No session''), w) else (Inr v, w))"

definition createAdminClient :: "unit action" where
  "createAdminClient = ret ()"

text \<open>\<open>handleError\<close>, the same in both action files: log, then throw the same error.\<close>

definition handleError :: "js_error \<Rightarrow> string \<Rightarrow> 'a action" where
  "handleError error message =
     bnd (console_log (LogErrorMessage error message)) (\<lambda>_. throw error)"

section \<open>The user actions of \<^verbatim>\<open>src/lib/actions/user.actions.ts\<close>\<close>

text \<open>\<^verbatim>\<open>documents[0]\<close>: the first document, \<open>undefined\<close> when the array is empty.\<close>

definition first_document :: "'a list \<Rightarrow> 'a nullable" where
  "first_document ds = (case ds of [] \<Rightarrow> Undefined | d # _ \<Rightarrow> Val d)"

definition getUserByEmail :: "backend \<Rightarrow> string \<Rightarrow> user_doc nullable action" where
  "getUserByEmail b mail =
     bnd createAdminClient (\<lambda>_.
     bnd (sdk (ListUsers [Equal ''email'' [mail]]) (databases_listUsers b [Equal ''email'' [mail]]))
       (\<lambda>result. ret (if total result > 0 then first_document (documents result) else Null)))"

definition sendEmailOTP :: "backend \<Rightarrow> string \<Rightarrow> string action" where
  "sendEmailOTP b mail =
     bnd createAdminClient (\<lambda>_.
     try_catch
       (bnd (sdk (CreateEmailToken mail) (account_createEmailToken b mail)) (\<lambda>userId. ret userId))
       (\<lambda>error. handleError error ''Failed to send email OTP''))"

definition avatarPlaceholderUrl :: string where
  "avatarPlaceholderUrl =
     ''https://img.freepik.com/free-psd/3d-illustration-person-with-sunglasses_23-2149436188.jpg''"

definition createAccount :: "backend \<Rightarrow> string \<Rightarrow> string \<Rightarrow> string action" where
  "createAccount b name mail =
     bnd (getUserByEmail b mail) (\<lambda>existingUser.
     bnd (sendEmailOTP b mail) (\<lambda>newAccountId.
     if newAccountId = '''' then throw (Error ''Failed to send an OTP'')
     else
       bnd (if \<not> truthy existingUser then
              bnd createAdminClient (\<lambda>_.
              let newUser = \<lparr>fullName = name, email = mail, avatar = avatarPlaceholderUrl,
                               accountId = newAccountId\<rparr>
              in bnd (sdk (CreateUserDocument newUser) (databases_createUser b newUser))
                   (\<lambda>_. ret ()))
            else ret ())
         (\<lambda>_. ret newAccountId)))"

definition set_cookie :: "string \<Rightarrow> unit action" where
  "set_cookie v = (\<lambda>w. (Inr (), w\<lparr>cookie := Some v\<rparr>))"

definition delete_cookie :: "unit action" where
  "delete_cookie = (\<lambda>w. (Inr (), w\<lparr>cookie := None\<rparr>))"

definition verifySecret :: "backend \<Rightarrow> string \<Rightarrow> string \<Rightarrow> string action" where
  "verifySecret b acct password =
     try_catch
       (bnd createAdminClient (\<lambda>_.
        bnd (sdk (CreateSession acct password) (account_createSession b acct password)) (\<lambda>s.
        bnd (set_cookie (secret s)) (\<lambda>_. ret (session_id s)))))
       (\<lambda>error. handleError error ''Failed to verify OTP'')"

text \<open>
  \<open>getCurrentUser\<close>: its \<^verbatim>\<open>catch\<close> only logs, so the function then returns \<open>undefined\<close>.
  \<^verbatim>\<open>parseStringify(undefined)\<close> is \<^verbatim>\<open>JSON.parse(undefined)\<close>, a \<open>SyntaxError\<close>, which is
  what a positive \<open>total\<close> with no document leads to.
\<close>

definition getCurrentUser :: "backend \<Rightarrow> user_doc nullable action" where
  "getCurrentUser b =
     try_catch
       (bnd createSessionClient (\<lambda>sessionSecret.
        bnd (sdk AccountGet (account_get b sessionSecret)) (\<lambda>resultId.
        bnd (sdk (ListUsers [Equal ''accountId'' [resultId]])
               (databases_listUsers b [Equal ''accountId'' [resultId]])) (\<lambda>user.
        if total user \<le> 0 then ret Null
        else (case first_document (documents user) of
                Val d \<Rightarrow> ret (Val d)
              | _ \<Rightarrow> throw SyntaxError)))))
       (\<lambda>error. bnd (console_log (LogError error)) (\<lambda>_. ret Undefined))"

definition signOutUser :: "backend \<Rightarrow> unit action" where
  "signOutUser b =
     bnd createSessionClient (\<lambda>_.
     try_finally
       (try_catch
          (bnd (sdk (DeleteSession ''current'') (account_deleteSession b ''current''))
             (\<lambda>_. delete_cookie))
          (\<lambda>error. handleError error ''Failed to sign out user''))
       (redirect ''/sign-in''))"

datatype sign_in_result = AccountId string | UserNotFound

definition signInUser :: "backend \<Rightarrow> string \<Rightarrow> sign_in_result action" where
  "signInUser b mail =
     try_catch
       (bnd (getUserByEmail b mail) (\<lambda>existingUser.
        case existingUser of
          Val u \<Rightarrow> bnd (sendEmailOTP b mail) (\<lambda>_. ret (AccountId (accountId u)))
        | _ \<Rightarrow> ret UserNotFound))
       (\<lambda>error. handleError error ''Failed to sign in user'')"

section \<open>The file actions\<close>

record process_env =
  APPWRITE_ENDPOINT :: string
  APPWRITE_BUCKET :: string
  APPWRITE_PROJECT :: string

definition constructFileUrl :: "process_env \<Rightarrow> string \<Rightarrow> string" where
  "constructFileUrl env bucketFileId =
     APPWRITE_ENDPOINT env @ ''/storage/buckets/'' @ APPWRITE_BUCKET env @ ''/files/''
       @ bucketFileId @ ''/view?project='' @ APPWRITE_PROJECT env"

text \<open>The metadata document \<open>uploadFile\<close> builds from the stored blob.\<close>

definition fileDocument :: "process_env \<Rightarrow> bucket_file \<Rightarrow> string \<Rightarrow> string \<Rightarrow> file_data" where
  "fileDocument env bucketFile ownerId acct =
     \<lparr>file_type = ftype (getFileType (bucket_file_name bucketFile)),
      file_name = bucket_file_name bucketFile,
      file_url = constructFileUrl env (bucket_file_id bucketFile),
      file_extension = extension (getFileType (bucket_file_name bucketFile)),
      file_size = sizeOriginal bucketFile,
      file_owner = ownerId,
      file_accountId = acct,
      file_users = [],
      file_bucketFileId = bucket_file_id bucketFile\<rparr>"

definition uploadFile ::
  "backend \<Rightarrow> process_env \<Rightarrow> js_file \<Rightarrow> string \<Rightarrow> string \<Rightarrow> string \<Rightarrow> file_doc action" where
  "uploadFile b env file ownerId acct path =
     bnd createAdminClient (\<lambda>_.
     try_catch
       (bnd (storage_createFile_call b file) (\<lambda>bucketFile.
        bnd (try_catch
               (sdk (CreateFileDocument (fileDocument env bucketFile ownerId acct))
                  (databases_createFile b (fileDocument env bucketFile ownerId acct)))
               (\<lambda>error.
                  bnd (storage_deleteFile_call b (bucket_file_id bucketFile)) (\<lambda>_.
                  handleError error ''Failed to create file document''))) (\<lambda>newFile.
        bnd (revalidatePath path) (\<lambda>_. ret newFile))))
       (\<lambda>error. handleError error ''Failed to upload file''))"

text \<open>
  \<^verbatim>\<open>const [sortBy, orderBy] = sort.split("-")\<close>: the first two pieces, the second
  \<open>undefined\<close> (here \<open>None\<close>) when there is only one.
\<close>

definition sortBy_orderBy :: "string \<Rightarrow> string \<times> string option" where
  "sortBy_orderBy sort' =
     (case split_str CHR ''-'' sort' of
        [] \<Rightarrow> ('''', None)
      | [s] \<Rightarrow> (s, None)
      | s # ord # _ \<Rightarrow> (s, Some ord))"

definition createQueries ::
  "user_doc \<Rightarrow> string list \<Rightarrow> string \<Rightarrow> string \<Rightarrow> nat option \<Rightarrow> query list" where
  "createQueries currentUser types searchText sort' limit =
     [Or [Equal ''owner'' [user_id currentUser], Contains ''users'' [email currentUser]]]
     @ (if length types > 0 then [Equal ''type'' types] else [])
     @ (if searchText \<noteq> '''' then [Contains ''name'' [searchText]] else [])
     @ (case limit of None \<Rightarrow> [] | Some l \<Rightarrow> if l \<noteq> 0 then [Limit l] else [])
     @ (if sort' \<noteq> '''' then
          (case sortBy_orderBy sort' of (sortBy, orderBy) \<Rightarrow>
             [if orderBy = Some ''asc'' then OrderAsc sortBy else OrderDesc sortBy])
        else [])"

text \<open>The parameters of \<open>getFiles\<close> have defaults; \<open>None\<close> is an omitted parameter.\<close>

definition getFiles ::
  "backend \<Rightarrow> string list option \<Rightarrow> string option \<Rightarrow> string option \<Rightarrow> nat option
     \<Rightarrow> file_doc document_list action" where
  "getFiles b types_opt searchText_opt sort_opt limit =
     (let types = (case types_opt of None \<Rightarrow> [] | Some ts \<Rightarrow> ts);
          searchText = (case searchText_opt of None \<Rightarrow> '''' | Some t \<Rightarrow> t);
          sort' = (case sort_opt of None \<Rightarrow> ''$createdAt-desc'' | Some s \<Rightarrow> s)
      in bnd createAdminClient (\<lambda>_.
         try_catch
           (bnd (getCurrentUser b) (\<lambda>currentUser.
            case currentUser of
              Val u \<Rightarrow>
                bnd (sdk (ListFiles (createQueries u types searchText sort' limit))
                       (databases_listFiles b (createQueries u types searchText sort' limit)))
                  (\<lambda>files. bnd (console_log (LogFiles files)) (\<lambda>_. ret files))
            | _ \<Rightarrow> throw (Error ''User not found'')))
           (\<lambda>error. handleError error ''Failed to get files'')))"

definition renameFile ::
  "backend \<Rightarrow> string \<Rightarrow> string \<Rightarrow> string \<Rightarrow> string \<Rightarrow> file_doc action" where
  "renameFile b fileId name ext path =
     bnd createAdminClient (\<lambda>_.
     try_catch
       (let newName = name @ ''.'' @ ext
        in bnd (sdk (UpdateFileDocument fileId (SetName newName))
                  (databases_updateFile b fileId (SetName newName))) (\<lambda>updatedFile.
           bnd (revalidatePath path) (\<lambda>_. ret updatedFile)))
       (\<lambda>error. handleError error ''Failed to rename file''))"

definition updateFileUsers ::
  "backend \<Rightarrow> string \<Rightarrow> string list \<Rightarrow> string \<Rightarrow> file_doc action" where
  "updateFileUsers b fileId emails path =
     bnd createAdminClient (\<lambda>_.
     try_catch
       (bnd (sdk (UpdateFileDocument fileId (SetUsers emails))
               (databases_updateFile b fileId (SetUsers emails))) (\<lambda>updatedFile.
        bnd (revalidatePath path) (\<lambda>_. ret updatedFile)))
       (\<lambda>error. handleError error ''Failed to update file users''))"

definition deleteFile :: "backend \<Rightarrow> string \<Rightarrow> string \<Rightarrow> string \<Rightarrow> string action" where
  "deleteFile b fileId bucketFileId path =
     bnd createAdminClient (\<lambda>_.
     try_catch
       (bnd (sdk (DeleteFileDocument fileId) (databases_deleteFile b fileId)) (\<lambda>deletedFile.
        bnd (if deletedFile then storage_deleteFile_call b bucketFileId else ret ()) (\<lambda>_.
        bnd (revalidatePath path) (\<lambda>_. ret ''success''))))
       (\<lambda>error. handleError error ''Failed to delete file''))"

subsection \<open>\<open>getTotalSpaceUsed\<close>\<close>

record type_usage =
  usage_size :: nat
  latestDate :: string

text \<open>
  The \<open>totalSpace\<close> object: its five per-type entries are a map from the key to the record
  of the type; \<open>used\<close> and \<open>all\<close> are numbers.
\<close>

record total_space =
  usage :: "string \<Rightarrow> type_usage option"
  used :: nat
  all' :: nat

definition initialTotalSpace :: total_space where
  "initialTotalSpace =
     \<lparr>usage = [''image'' \<mapsto> \<lparr>usage_size = 0, latestDate = ''''\<rparr>,
               ''document'' \<mapsto> \<lparr>usage_size = 0, latestDate = ''''\<rparr>,
               ''video'' \<mapsto> \<lparr>usage_size = 0, latestDate = ''''\<rparr>,
               ''audio'' \<mapsto> \<lparr>usage_size = 0, latestDate = ''''\<rparr>,
               ''other'' \<mapsto> \<lparr>usage_size = 0, latestDate = ''''\<rparr>],
      used = 0,
      all' = 2 * 1024 * 1024 * 1024\<rparr>"

text \<open>
  \<^verbatim>\<open>new Date(a) > new Date(b)\<close>. The parser of dates is a parameter \<open>D\<close>: the time value
  of a string, \<open>None\<close> for an invalid date, whose comparisons are all false.
\<close>

definition date_gt :: "(string \<Rightarrow> int option) \<Rightarrow> string \<Rightarrow> string \<Rightarrow> bool" where
  "date_gt D a b = (case (D a, D b) of (Some x, Some y) \<Rightarrow> x > y | _ \<Rightarrow> False)"

text \<open>
  The property names every object inherits from \<^verbatim>\<open>Object.prototype\<close>. Indexed with one of
  them, \<^verbatim>\<open>totalSpace[fileType]\<close> is a function (for \<^verbatim>\<open>__proto__\<close> the prototype object),
  on which \<^verbatim>\<open>size\<close> and \<^verbatim>\<open>latestDate\<close> can be set: nothing is thrown and nothing of
  \<open>totalSpace\<close> but \<open>used\<close> changes.
\<close>

definition objectPrototypeKeys :: "string list" where
  "objectPrototypeKeys =
     [''constructor'', ''__defineGetter__'', ''__defineSetter__'', ''hasOwnProperty'',
      ''__lookupGetter__'', ''__lookupSetter__'', ''isPrototypeOf'', ''propertyIsEnumerable'',
      ''toString'', ''valueOf'', ''__proto__'', ''toLocaleString'']"

text \<open>
  The body of the \<^verbatim>\<open>forEach\<close> callback. For one of the five types the record of the type
  and \<open>used\<close> are updated. For an inherited key only \<open>used\<close> is. For any other key
  \<^verbatim>\<open>totalSpace[fileType]\<close> is \<open>undefined\<close>, or the number \<open>used\<close> or \<open>all\<close>, on which a
  module (strict code) cannot set \<^verbatim>\<open>size\<close>: a \<open>TypeError\<close>.
\<close>

definition addFile ::
  "(string \<Rightarrow> int option) \<Rightarrow> total_space \<Rightarrow> file_doc \<Rightarrow> js_error + total_space" where
  "addFile D totalSpace file =
     (case usage totalSpace (file_type file) of
        None \<Rightarrow>
          if file_type file \<in> set objectPrototypeKeys
          then Inr (totalSpace\<lparr>used := used totalSpace + file_size file\<rparr>)
          else Inl TypeError
      | Some u \<Rightarrow>
          let u1 = u\<lparr>usage_size := usage_size u + file_size file\<rparr>;
              u2 = (if latestDate u1 = '''' \<or> date_gt D (file_updatedAt file) (latestDate u1)
                    then u1\<lparr>latestDate := file_updatedAt file\<rparr> else u1)
          in Inr (totalSpace\<lparr>usage := (usage totalSpace)(file_type file \<mapsto> u2),
                              used := used totalSpace + file_size file\<rparr>))"

fun forEach_addFile ::
  "(string \<Rightarrow> int option) \<Rightarrow> total_space \<Rightarrow> file_doc list \<Rightarrow> js_error + total_space" where
  "forEach_addFile D totalSpace [] = Inr totalSpace"
| "forEach_addFile D totalSpace (file # rest) =
     (case addFile D totalSpace file of
        Inl e \<Rightarrow> Inl e
      | Inr totalSpace' \<Rightarrow> forEach_addFile D totalSpace' rest)"

definition getTotalSpaceUsed :: "(string \<Rightarrow> int option) \<Rightarrow> backend \<Rightarrow> total_space action" where
  "getTotalSpaceUsed D b =
     try_catch
       (bnd createSessionClient (\<lambda>_.
        bnd (getCurrentUser b) (\<lambda>currentUser.
        case currentUser of
          Val u \<Rightarrow>
            bnd (sdk (ListFiles [Equal ''owner'' [user_id u]])
                   (databases_listFiles b [Equal ''owner'' [user_id u]])) (\<lambda>files.
            case forEach_addFile D initialTotalSpace (documents files) of
              Inl e \<Rightarrow> throw e
            | Inr totalSpace \<Rightarrow> ret totalSpace)
        | _ \<Rightarrow> throw (Error ''User is not authenticated.''))))
       (\<lambda>error. handleError error ''Error calculating total space used'')"

section \<open>The upload component, \<^verbatim>\<open>src/components/FileUploader.tsx\<close>\<close>

definition MAX_FILE_SIZE :: nat where
  "MAX_FILE_SIZE = 50 * 1024 * 1024"

text \<open>
  The state \<open>onDrop\<close> acts on: the pending list \<open>files\<close> of the component, the toasts issued
  (by the name of the file they report) and the calls of the server action \<open>uploadFile\<close>.
\<close>

record uploader =
  files :: "js_file list"
  toasts :: "string list"
  uploadCalls :: "js_file list"

text \<open>
  The callback mapped over the accepted files runs up to its \<^verbatim>\<open>return\<close> at once: an
  oversized file is filtered out of the pending list by name and reported; any other file
  is handed to \<open>uploadFile\<close>.
\<close>

definition startUpload :: "uploader \<Rightarrow> js_file \<Rightarrow> uploader" where
  "startUpload st file =
     (if fsize file > MAX_FILE_SIZE then
        st\<lparr>files := filter (\<lambda>f. fname f \<noteq> fname file) (files st),
           toasts := toasts st @ [fname file]\<rparr>
      else st\<lparr>uploadCalls := uploadCalls st @ [file]\<rparr>)"

text \<open>
  The \<^verbatim>\<open>then\<close> callback of an upload: \<open>outcome file\<close> is how the server action ended for the
  file, a rejection or the truthiness of the value it resolved to.
\<close>

definition finishUpload :: "(js_file \<Rightarrow> js_error + bool) \<Rightarrow> uploader \<Rightarrow> js_file \<Rightarrow> uploader" where
  "finishUpload outcome st file =
     (if fsize file > MAX_FILE_SIZE then st
      else (case outcome file of
              Inr True \<Rightarrow> st\<lparr>files := filter (\<lambda>f. fname f \<noteq> fname file) (files st)\<rparr>
            | _ \<Rightarrow> st))"

definition onDrop :: "(js_file \<Rightarrow> js_error + bool) \<Rightarrow> js_file list \<Rightarrow> uploader \<Rightarrow> uploader" where
  "onDrop outcome acceptedFiles st =
     foldl (finishUpload outcome)
       (foldl startUpload (st\<lparr>files := acceptedFiles\<rparr>) acceptedFiles)
       acceptedFiles"

section \<open>Vocabulary of the statements\<close>

text \<open>
  What is needed to state the properties: the code unit of the lower-case letter of a
  code unit below 256 (upper-case are 65 to 90 and 192 to 222 without 215, and the
  lower-case letter is 32 above); the files of a collection that a user owns; which
  queries are ordering clauses; when a
  session belongs to a user document (the cookie is set, the account is found and its user
  document is listed); what an action added to the console and to the requests; when an
  error was logged with a message and rethrown; the five file types, the files of a type,
  the size recorded for a type, the order of two valid dates, and the date the loop of
  \<open>getTotalSpaceUsed\<close> keeps after a list of dates.
\<close>

definition isUpperCode :: "nat \<Rightarrow> bool" where
  "isUpperCode n \<longleftrightarrow> (65 \<le> n \<and> n \<le> 90) \<or> (192 \<le> n \<and> n \<le> 222 \<and> n \<noteq> 215)"

definition lowerCaseCode :: "nat \<Rightarrow> nat" where
  "lowerCaseCode n = (if isUpperCode n then n + 32 else n)"

definition owned_by :: "string \<Rightarrow> file_doc list \<Rightarrow> file_doc list" where
  "owned_by uid fs = filter (\<lambda>f. file_owner f = uid) fs"

fun isOrder :: "query \<Rightarrow> bool" where
  "isOrder (OrderAsc _) = True"
| "isOrder (OrderDesc _) = True"
| "isOrder _ = False"

definition signed_in :: "backend \<Rightarrow> world \<Rightarrow> user_doc \<Rightarrow> bool" where
  "signed_in b w u =
     (case cookie w of
        None \<Rightarrow> False
      | Some s \<Rightarrow>
          s \<noteq> '''' \<and>
          (case account_get b s of
             Inl _ \<Rightarrow> False
           | Inr resultId \<Rightarrow>
               (case databases_listUsers b [Equal ''accountId'' [resultId]] of
                  Inl _ \<Rightarrow> False
                | Inr r \<Rightarrow> 0 < total r \<and> first_document (documents r) = Val u)))"

definition new_log :: "world \<Rightarrow> (js_error + 'a) \<times> world \<Rightarrow> logged list" where
  "new_log w r = drop (length (console w)) (console (snd r))"

definition new_requests :: "world \<Rightarrow> (js_error + 'a) \<times> world \<Rightarrow> request list" where
  "new_requests w r = drop (length (requests w)) (requests (snd r))"

definition logged_and_rethrown ::
  "js_error \<Rightarrow> string \<Rightarrow> world \<Rightarrow> (js_error + 'a) \<times> world \<Rightarrow> bool" where
  "logged_and_rethrown e msg w r \<longleftrightarrow>
     fst r = Inl e \<and> LogErrorMessage e msg \<in> set (new_log w r)"

definition fileTypes :: "string list" where
  "fileTypes = [''document'', ''image'', ''video'', ''audio'', ''other'']"

definition ofType :: "string \<Rightarrow> file_doc list \<Rightarrow> file_doc list" where
  "ofType t fs = filter (\<lambda>f. file_type f = t) fs"

definition typeSize :: "total_space \<Rightarrow> string \<Rightarrow> nat" where
  "typeSize ts t = (case usage ts t of None \<Rightarrow> 0 | Some tu \<Rightarrow> usage_size tu)"

definition date_le :: "(string \<Rightarrow> int option) \<Rightarrow> string \<Rightarrow> string \<Rightarrow> bool" where
  "date_le D a b = (case (D a, D b) of (Some x, Some y) \<Rightarrow> x \<le> y | _ \<Rightarrow> False)"

fun latest :: "(string \<Rightarrow> int option) \<Rightarrow> string \<Rightarrow> string list \<Rightarrow> string" where
  "latest D cur [] = cur"
| "latest D cur (d # ds) = latest D (if cur = '''' \<or> date_gt D d cur then d else cur) ds"

section \<open>Concrete backends and inputs\<close>

text \<open>
  Inputs on which the statements are evaluated: a user with three files, a backend on
  which every request succeeds, one on which every request fails with a given error, and
  backends on which only some requests fail.
\<close>

definition demo_user :: user_doc where
  "demo_user = \<lparr>fullName = ''Ada'', email = ''ada@example.com'', avatar = avatarPlaceholderUrl,
                 accountId = ''acc1'', user_id = ''u1''\<rparr>"

definition demo_file :: "string \<Rightarrow> string \<Rightarrow> nat \<Rightarrow> string \<Rightarrow> file_doc" where
  "demo_file t name sz updatedAt =
     \<lparr>file_type = t, file_name = name, file_url = '''', file_extension = extension (getFileType name),
      file_size = sz, file_owner = ''u1'', file_accountId = ''acc1'', file_users = [],
      file_bucketFileId = name, file_id = name, file_updatedAt = updatedAt\<rparr>"

definition demo_files :: "file_doc list" where
  "demo_files =
     [demo_file ''image'' ''a.png'' 100 ''2024-01-02T00:00:00.000+00:00'',
      demo_file ''image'' ''b.jpg'' 50 ''2024-01-01T00:00:00.000+00:00'',
      demo_file ''document'' ''c.pdf'' 7 ''2024-03-01T00:00:00.000+00:00'']"

text \<open>A date parser that knows the three dates above (as days since the epoch).\<close>

definition demo_Date :: "string \<Rightarrow> int option" where
  "demo_Date = map_of
     [(''2024-01-01T00:00:00.000+00:00'', 19723),
      (''2024-01-02T00:00:00.000+00:00'', 19724),
      (''2024-03-01T00:00:00.000+00:00'', 19783)]"

definition backend_up :: backend where
  "backend_up =
     \<lparr>account_createEmailToken = (\<lambda>_. Inr ''acc1''),
      account_createSession = (\<lambda>_ _. Inr \<lparr>session_id = ''s1'', secret = ''secret''\<rparr>),
      account_get = (\<lambda>_. Inr ''acc1''),
      account_deleteSession = (\<lambda>_. Inr ()),
      databases_listUsers = (\<lambda>_. Inr \<lparr>total = 1, documents = [demo_user]\<rparr>),
      databases_listFiles = (\<lambda>_. Inr \<lparr>total = 3, documents = demo_files\<rparr>),
      databases_createUser = (\<lambda>_. Inr demo_user),
      databases_createFile = (\<lambda>_. Inr (demo_file ''document'' ''c.pdf'' 7 ''2024-03-01T00:00:00.000+00:00'')),
      databases_updateFile = (\<lambda>_ _. Inr (demo_file ''document'' ''c.pdf'' 7 ''2024-03-01T00:00:00.000+00:00'')),
      databases_deleteFile = (\<lambda>_. Inr True),
      storage_createFile = (\<lambda>f. Inr \<lparr>bucket_file_id = ''b1'', bucket_file_name = fname f,
                                        sizeOriginal = fsize f\<rparr>),
      storage_deleteFile = (\<lambda>_. Inr ())\<rparr>"

definition backend_down :: "js_error \<Rightarrow> backend" where
  "backend_down e =
     \<lparr>account_createEmailToken = (\<lambda>_. Inl e),
      account_createSession = (\<lambda>_ _. Inl e),
      account_get = (\<lambda>_. Inl e),
      account_deleteSession = (\<lambda>_. Inl e),
      databases_listUsers = (\<lambda>_. Inl e),
      databases_listFiles = (\<lambda>_. Inl e),
      databases_createUser = (\<lambda>_. Inl e),
      databases_createFile = (\<lambda>_. Inl e),
      databases_updateFile = (\<lambda>_ _. Inl e),
      databases_deleteFile = (\<lambda>_. Inl e),
      storage_createFile = (\<lambda>_. Inl e),
      storage_deleteFile = (\<lambda>_. Inl e)\<rparr>"

definition world0 :: world where
  "world0 = \<lparr>console = [], requests = [], bucket = [], cookie = Some ''secret'', revalidated = []\<rparr>"

definition demo_env :: process_env where
  "demo_env = \<lparr>APPWRITE_ENDPOINT = ''https://cloud.example/v1'', APPWRITE_BUCKET = ''bucket'',
                APPWRITE_PROJECT = ''project''\<rparr>"

definition demo_upload :: js_file where
  "demo_upload = \<lparr>fname = ''notes.txt'', fsize = 12\<rparr>"

definition demo_big :: js_file where
  "demo_big = \<lparr>fname = ''movie.mkv'', fsize = 60 * 1024 * 1024\<rparr>"

definition uploader0 :: uploader where
  "uploader0 = \<lparr>files = [], toasts = [], uploadCalls = []\<rparr>"

definition backend_partial :: "js_error \<Rightarrow> backend" where
  "backend_partial e =
     backend_up\<lparr>account_createEmailToken := (\<lambda>_. Inl e),
                 databases_listFiles := (\<lambda>_. Inl e),
                 storage_deleteFile := (\<lambda>_. Inl e)\<rparr>"

definition backend_no_users :: "js_error \<Rightarrow> backend" where
  "backend_no_users e = backend_up\<lparr>databases_listUsers := (\<lambda>_. Inl e)\<rparr>"

definition backend_new_user :: "js_error \<Rightarrow> backend" where
  "backend_new_user e =
     backend_up\<lparr>databases_listUsers := (\<lambda>_. Inr \<lparr>total = 0, documents = []\<rparr>),
                 databases_createUser := (\<lambda>_. Inl e)\<rparr>"

text \<open>
  A backend that holds a collection of file documents and answers a listing by owner with
  the number of the owner's files as \<open>total\<close> and, as the backend-as-a-service does when
  the queries carry no limit, only the first \<open>page\<close> of them as \<open>documents\<close>.
\<close>

definition backend_paging :: "nat \<Rightarrow> file_doc list \<Rightarrow> backend" where
  "backend_paging page collection =
     backend_up\<lparr>databases_listFiles :=
       (\<lambda>queries. case queries of
          [Equal attribute [uid]] \<Rightarrow>
            if attribute = ''owner''
            then Inr \<lparr>total = length (owned_by uid collection),
                      documents = take page (owned_by uid collection)\<rparr>
            else Inr \<lparr>total = 0, documents = []\<rparr>
        | _ \<Rightarrow> Inr \<lparr>total = 0, documents = []\<rparr>)\<rparr>"

text \<open>Twenty-six image files of one byte each, all owned by the user \<open>u1\<close>.\<close>

definition many_files :: "file_doc list" where
  "many_files =
     map (\<lambda>i. demo_file ''image'' (''photo'' @ Number_toString i @ ''.png'') 1
                 ''2024-01-02T00:00:00.000+00:00'')
       [0..<26]"

definition unavailable :: js_error where
  "unavailable = AppwriteException ''service_unavailable''"

section \<open>Properties of the utilities\<close>

lemma split_str_nonempty: "split_str sep s \<noteq> []"
  by (induction s) (auto split: list.splits)

lemma split_str_no_sep: "sep \<notin> set s \<Longrightarrow> split_str sep s = [s]"
  by (induction s) auto

lemma fileExtension_Some: "\<exists>ext. fileExtension fileName = Some ext"
  by (simp add: fileExtension_def pop_def split_str_nonempty)

lemma fileExtension_no_dot:
  "CHR ''.'' \<notin> set fileName \<Longrightarrow> fileExtension fileName = Some (toLowerCase fileName)"
  by (simp add: fileExtension_def pop_def split_str_no_sep)


subsection \<open>Digits, \<open>toFixed\<close> and \<open>Number\<close>\<close>

lemma nth_digit_isDigit: "d < 10 \<Longrightarrow> isDigit (''0123456789'' ! d)"
  unfolding isDigit_def by (rule nth_mem) simp

lemma digitVal_nth_digit: "d < 10 \<Longrightarrow> digitVal (''0123456789'' ! d) = d"
proof -
  assume "d < 10"
  then have "d \<in> {0, 1, 2, 3, 4, 5, 6, 7, 8, 9}" by auto
  then show ?thesis by (auto simp: digitVal_def)
qed

lemma isDigit_not_special:
  "isDigit c \<Longrightarrow> c \<noteq> CHR '' '' \<and> c \<noteq> CHR ''.'' \<and> c \<noteq> CHR ''-''"
  by (auto simp: isDigit_def)

lemma Number_toString_digits: "\<forall>c \<in> set (Number_toString n). isDigit c"
proof (induction n rule: Number_toString.induct)
  case (1 n)
  show ?case
  proof (cases "n < 10")
    case True
    then show ?thesis by (simp add: Number_toString.simps [of n] nth_digit_isDigit)
  next
    case False
    with 1 show ?thesis
      by (simp add: Number_toString.simps [of n] nth_digit_isDigit)
  qed
qed

lemma Number_toString_nonempty: "Number_toString n \<noteq> []"
  by (subst Number_toString.simps) simp

lemma parseDigits_snoc: "parseDigits (s @ [c]) = 10 * parseDigits s + digitVal c"
  by (simp add: parseDigits_def)

lemma parseDigits_Nil: "parseDigits [] = 0"
  by (simp add: parseDigits_def)

lemma parseDigits_append:
  "parseDigits (a @ b) = parseDigits a * 10 ^ length b + parseDigits b"
proof (induction b rule: rev_induct)
  case Nil
  show ?case by (simp add: parseDigits_Nil)
next
  case (snoc c b)
  have "parseDigits (a @ b @ [c]) = 10 * parseDigits (a @ b) + digitVal c"
    using parseDigits_snoc [of "a @ b" c] by simp
  also have "\<dots> = parseDigits a * 10 ^ length (b @ [c]) + (10 * parseDigits b + digitVal c)"
    by (simp add: snoc.IH algebra_simps)
  finally show ?case by (simp add: parseDigits_snoc)
qed

lemma parseDigits_Number_toString: "parseDigits (Number_toString n) = n"
proof (induction n rule: Number_toString.induct)
  case (1 n)
  show ?case
  proof (cases "n < 10")
    case True
    then show ?thesis
      using parseDigits_snoc [of "[]" "''0123456789'' ! n"]
      by (simp add: Number_toString.simps [of n] digitVal_nth_digit parseDigits_Nil)
  next
    case False
    with 1 show ?thesis
      by (simp add: Number_toString.simps [of n] parseDigits_snoc digitVal_nth_digit)
  qed
qed

lemma parseDigits_zeros: "parseDigits (replicate k CHR ''0'') = 0"
proof (induction k)
  case 0
  show ?case by (simp add: parseDigits_Nil)
next
  case (Suc k)
  have "replicate (Suc k) CHR ''0'' = replicate k CHR ''0'' @ [CHR ''0'']"
    by (simp add: replicate_append_same)
  then show ?case by (simp add: parseDigits_snoc Suc digitVal_def)
qed

lemma parseDigits_padded: "parseDigits (replicate k CHR ''0'' @ s) = parseDigits s"
  by (simp add: parseDigits_append parseDigits_zeros)

lemma Number_digits:
  assumes "\<forall>c \<in> set a. isDigit c" and "a \<noteq> []"
  shows "Number a = of_nat (parseDigits a)"
proof -
  have neg: "(a \<noteq> [] \<and> hd a = CHR ''-'') = False"
    using assms isDigit_not_special [of "hd a"] by (cases a) auto
  have tw: "takeWhile (\<lambda>c. c \<noteq> CHR ''.'') a = a"
    using assms isDigit_not_special by auto
  show ?thesis
    by (simp only: Number_def Let_def neg if_False tw) (simp add: parseDigits_Nil)
qed

lemma Number_point:
  assumes "\<forall>c \<in> set a. isDigit c" and "a \<noteq> []"
  shows "Number (a @ ''.'' @ b) = of_nat (parseDigits a) + of_nat (parseDigits b) / 10 ^ length b"
proof -
  have neg: "(a @ ''.'' @ b \<noteq> [] \<and> hd (a @ ''.'' @ b) = CHR ''-'') = False"
    using assms isDigit_not_special [of "hd a"] by (cases a) auto
  have tw: "takeWhile (\<lambda>c. c \<noteq> CHR ''.'') (a @ ''.'' @ b) = a"
    using assms isDigit_not_special by (subst takeWhile_append2) auto
  show ?thesis
    by (simp only: Number_def Let_def neg if_False tw) simp
qed

lemma toFixed_value:
  assumes "0 \<le> x" and "f \<le> 100"
  shows "\<exists>str. toFixed x f = Inr str \<and> CHR '' '' \<notin> set str
           \<and> Number str = of_int \<lfloor>x * 10 ^ f + 1 / 2\<rfloor> / 10 ^ f"
proof -
  define n where "n = nat \<lfloor>x * 10 ^ f + 1 / 2\<rfloor>"
  define m where "m = Number_toString n"
  have n_int: "of_nat n = (of_int \<lfloor>x * 10 ^ f + 1 / 2\<rfloor> :: rat)"
  proof -
    have "0 \<le> x * 10 ^ f + 1 / 2" using assms(1) by simp
    then have "0 \<le> \<lfloor>x * 10 ^ f + 1 / 2\<rfloor>" by simp
    then show ?thesis unfolding n_def by simp
  qed
  have m_digits: "\<forall>c \<in> set m. isDigit c" unfolding m_def by (rule Number_toString_digits)
  have m_ne: "m \<noteq> []" unfolding m_def by (rule Number_toString_nonempty)
  have m_val: "parseDigits m = n" unfolding m_def by (rule parseDigits_Number_toString)
  show ?thesis
  proof (cases "f = 0")
    case True
    have "toFixed x f = Inr m"
      using assms True by (simp add: toFixed_def Let_def n_def m_def)
    moreover have "CHR '' '' \<notin> set m" using m_digits isDigit_not_special by blast
    moreover have "Number m = of_int \<lfloor>x * 10 ^ f + 1 / 2\<rfloor> / 10 ^ f"
      using Number_digits [OF m_digits m_ne] m_val n_int True by simp
    ultimately show ?thesis by blast
  next
    case False
    define m' where "m' = (if length m \<le> f then replicate (f + 1 - length m) CHR ''0'' @ m else m)"
    define a where "a = take (length m' - f) m'"
    define b where "b = drop (length m' - f) m'"
    have len: "f < length m'" unfolding m'_def by auto
    have m'_digits: "\<forall>c \<in> set m'. isDigit c"
      using m_digits unfolding m'_def by (auto simp: isDigit_def)
    have m'_val: "parseDigits m' = n"
      unfolding m'_def using m_val by (simp add: parseDigits_padded)
    have a_digits: "\<forall>c \<in> set a. isDigit c"
      using m'_digits unfolding a_def by (meson in_set_takeD)
    have b_digits: "\<forall>c \<in> set b. isDigit c"
      using m'_digits unfolding b_def by (meson in_set_dropD)
    have a_ne: "a \<noteq> []" using len unfolding a_def by auto
    have b_len: "length b = f" using len unfolding b_def by simp
    have ab: "a @ b = m'" unfolding a_def b_def by simp
    have res: "toFixed x f = Inr (a @ ''.'' @ b)"
      unfolding toFixed_def Let_def a_def b_def m'_def m_def n_def
      using assms False by simp
    have nosp: "CHR '' '' \<notin> set (a @ ''.'' @ b)"
      using a_digits b_digits isDigit_not_special by auto
    have "parseDigits a * 10 ^ f + parseDigits b = n"
      using parseDigits_append [of a b] ab m'_val b_len by simp
    then have "(of_nat (parseDigits a) :: rat) * 10 ^ f + of_nat (parseDigits b) = of_nat n"
      by (metis of_nat_add of_nat_mult of_nat_numeral of_nat_power)
    then have "(of_nat (parseDigits a) :: rat) + of_nat (parseDigits b) / 10 ^ f = of_nat n / 10 ^ f"
      by (simp add: field_simps)
    then have "Number (a @ ''.'' @ b) = of_int \<lfloor>x * 10 ^ f + 1 / 2\<rfloor> / 10 ^ f"
      using Number_point [OF a_digits a_ne, of b] b_len n_int by simp
    with res nosp show ?thesis by blast
  qed
qed

lemma numericPrefix_append:
  "CHR '' '' \<notin> set num \<Longrightarrow> numericPrefix (num @ CHR '' '' # u) = Number num"
  unfolding numericPrefix_def by (subst takeWhile_append2) auto

lemma unitSuffix_append:
  "CHR '' '' \<notin> set num \<Longrightarrow> unitSuffix (num @ CHR '' '' # u) = u"
  unfolding unitSuffix_def by (subst dropWhile_append2) auto

lemma Bytes_parts:
  "CHR '' '' \<notin> set (Number_toString n) \<and> Number (Number_toString n) = of_nat n"
  using Number_toString_digits [of n] isDigit_not_special
    Number_digits [OF Number_toString_digits Number_toString_nonempty, of n]
  by (auto simp: parseDigits_Number_toString)

lemma nearestDecimal_mono: "x \<le> y \<Longrightarrow> nearestDecimal f x \<le> nearestDecimal f y"
proof -
  assume "x \<le> y"
  then have "x * 10 ^ f + 1 / 2 \<le> y * 10 ^ f + 1 / 2" by simp
  then have "\<lfloor>x * 10 ^ f + 1 / 2\<rfloor> \<le> \<lfloor>y * 10 ^ f + 1 / 2\<rfloor>" by (rule floor_mono)
  then show ?thesis unfolding nearestDecimal_def by (simp add: divide_right_mono)
qed

lemma convertFileSize_Bytes:
  assumes "s < 1024"
  shows "\<exists>str. convertFileSize s digits = Inr str \<and> unitSuffix str = ''Bytes''
           \<and> numericPrefix str = of_nat s"
proof -
  have "convertFileSize s digits = Inr (Number_toString s @ CHR '' '' # ''Bytes'')"
    using assms by (simp add: convertFileSize_def)
  then show ?thesis
    using Bytes_parts [of s] by (simp add: numericPrefix_append unitSuffix_append)
qed

lemma scaled_parts:
  assumes "digits_or_1 digits \<le> 100" and "(0::rat) \<le> d"
  shows "\<exists>str. map_sum id (\<lambda>t. t @ CHR '' '' # u) (toFixed (of_nat s / d) (digits_or_1 digits)) = Inr str
           \<and> unitSuffix str = u
           \<and> numericPrefix str = nearestDecimal (digits_or_1 digits) (of_nat s / d)"
proof -
  have "(0::rat) \<le> of_nat s / d" using assms(2) by simp
  from toFixed_value [OF this assms(1)]
  obtain t where t: "toFixed (of_nat s / d) (digits_or_1 digits) = Inr t"
      "CHR '' '' \<notin> set t"
      "Number t = nearestDecimal (digits_or_1 digits) (of_nat s / d)"
    unfolding nearestDecimal_def by blast
  then show ?thesis
    by (simp add: numericPrefix_append unitSuffix_append)
qed

lemma convertFileSize_KB:
  assumes "1024 \<le> s" and "s < 1024 * 1024" and "digits_or_1 digits \<le> 100"
  shows "\<exists>str. convertFileSize s digits = Inr str \<and> unitSuffix str = ''KB''
           \<and> numericPrefix str = nearestDecimal (digits_or_1 digits) (of_nat s / 1024)"
  using assms(1,2) scaled_parts [OF assms(3), of 1024 "''KB''" s]
  by (simp add: convertFileSize_def)

lemma convertFileSize_MB:
  assumes "1024 * 1024 \<le> s" and "s < 1024 * 1024 * 1024" and "digits_or_1 digits \<le> 100"
  shows "\<exists>str. convertFileSize s digits = Inr str \<and> unitSuffix str = ''MB''
           \<and> numericPrefix str = nearestDecimal (digits_or_1 digits) (of_nat s / (1024 * 1024))"
  using assms(1,2) scaled_parts [OF assms(3), of "1024 * 1024" "''MB''" s]
  by (simp add: convertFileSize_def)

lemma convertFileSize_GB:
  assumes "1024 * 1024 * 1024 \<le> s" and "digits_or_1 digits \<le> 100"
  shows "\<exists>str. convertFileSize s digits = Inr str \<and> unitSuffix str = ''GB''
           \<and> numericPrefix str = nearestDecimal (digits_or_1 digits) (of_nat s / (1024 * 1024 * 1024))"
  using assms(1) scaled_parts [OF assms(2), of "1024 * 1024 * 1024" "''GB''" s]
  by (simp add: convertFileSize_def)

lemma convertFileSize_result:
  assumes "digits_or_1 digits \<le> 100"
  shows "\<exists>str. convertFileSize s digits = Inr str
      \<and> (unitSuffix str = ''Bytes'' \<longleftrightarrow> s < 1024)
      \<and> (unitSuffix str = ''KB'' \<longleftrightarrow> 1024 \<le> s \<and> s < 1024 ^ 2)
      \<and> (unitSuffix str = ''MB'' \<longleftrightarrow> 1024 ^ 2 \<le> s \<and> s < 1024 ^ 3)
      \<and> (unitSuffix str = ''GB'' \<longleftrightarrow> 1024 ^ 3 \<le> s)
      \<and> numericPrefix str =
          (if s < 1024 then of_nat s
           else nearestDecimal (digits_or_1 digits) (of_nat s / of_nat (unitBytes (unitSuffix str))))"
proof -
  consider (B) "s < 1024" | (K) "1024 \<le> s" "s < 1024 * 1024"
    | (M) "1024 * 1024 \<le> s" "s < 1024 * 1024 * 1024" | (G) "1024 * 1024 * 1024 \<le> s"
    by linarith
  then show ?thesis
  proof cases
    case B
    from convertFileSize_Bytes [OF B, of digits] obtain str where
      "convertFileSize s digits = Inr str" "unitSuffix str = ''Bytes''" "numericPrefix str = of_nat s"
      by blast
    with B show ?thesis by (simp add: power2_eq_square power3_eq_cube)
  next
    case K
    from convertFileSize_KB [OF K assms] obtain str where
      "convertFileSize s digits = Inr str" "unitSuffix str = ''KB''"
      "numericPrefix str = nearestDecimal (digits_or_1 digits) (of_nat s / 1024)"
      by blast
    with K show ?thesis by (simp add: power2_eq_square power3_eq_cube unitBytes_def)
  next
    case M
    from convertFileSize_MB [OF M assms] obtain str where
      "convertFileSize s digits = Inr str" "unitSuffix str = ''MB''"
      "numericPrefix str = nearestDecimal (digits_or_1 digits) (of_nat s / (1024 * 1024))"
      by blast
    with M show ?thesis by (simp add: power2_eq_square power3_eq_cube unitBytes_def)
  next
    case G
    from convertFileSize_GB [OF G assms] obtain str where
      "convertFileSize s digits = Inr str" "unitSuffix str = ''GB''"
      "numericPrefix str = nearestDecimal (digits_or_1 digits) (of_nat s / (1024 * 1024 * 1024))"
      by blast
    with G show ?thesis by (simp add: power2_eq_square power3_eq_cube unitBytes_def)
  qed
qed

text \<open>
  Claim C6. \<open>convertFileSize\<close> uses 1024-byte unit thresholds: whenever \<open>toFixed\<close> accepts
  the digit count, the call returns a string whose unit is Bytes iff \<open>s < 1024\<close>, KB iff
  \<open>1024 \<le> s < 1024\<^sup>2\<close>, MB iff \<open>1024\<^sup>2 \<le> s < 1024\<^sup>3\<close> and GB iff \<open>s \<ge> 1024\<^sup>3\<close>; its
  numeric part is \<open>s\<close> itself in Bytes and otherwise \<open>s\<close> divided by the byte count of the
  unit, printed by \<open>toFixed\<close>, that is, the nearest decimal with \<open>digits || 1\<close> places.
\<close>

theorem convertFileSize_thresholds:
  assumes "digits_or_1 digits \<le> 100"
  shows "\<exists>str. convertFileSize s digits = Inr str
      \<and> (unitSuffix str = ''Bytes'' \<longleftrightarrow> s < 1024)
      \<and> (unitSuffix str = ''KB'' \<longleftrightarrow> 1024 \<le> s \<and> s < 1024 ^ 2)
      \<and> (unitSuffix str = ''MB'' \<longleftrightarrow> 1024 ^ 2 \<le> s \<and> s < 1024 ^ 3)
      \<and> (unitSuffix str = ''GB'' \<longleftrightarrow> 1024 ^ 3 \<le> s)
      \<and> numericPrefix str =
          (if s < 1024 then of_nat s
           else nearestDecimal (digits_or_1 digits) (of_nat s / of_nat (unitBytes (unitSuffix str))))"
  using assms by (rule convertFileSize_result)

theorem convertFileSize_thresholds_witness:
  "digits_or_1 None \<le> 100 \<and>
   (\<exists>str. convertFileSize 1536 None = Inr str \<and> unitSuffix str = ''KB''
      \<and> numericPrefix str = 3 / 2)"
proof -
  have d: "digits_or_1 None \<le> 100" by (simp add: digits_or_1_def)
  have v: "nearestDecimal (digits_or_1 None) (of_nat 1536 / of_nat (unitBytes ''KB'')) = 3 / 2"
    by (simp add: digits_or_1_def nearestDecimal_def unitBytes_def floor_eq_iff)
  from convertFileSize_thresholds [OF d, of 1536] obtain str where
    s: "convertFileSize 1536 None = Inr str" "unitSuffix str = ''KB''"
    and n: "numericPrefix str = (if (1536::nat) < 1024 then of_nat 1536
           else nearestDecimal (digits_or_1 None) (of_nat 1536 / of_nat (unitBytes (unitSuffix str))))"
    by auto
  from n have "numericPrefix str = 3 / 2" unfolding s(2) v by simp
  with d s show ?thesis by blast
qed

text \<open>
  Claim C7. \<open>convertFileSize\<close> is monotone: for byte counts \<open>a \<le> b\<close> formatted with the
  same digit count, the result for \<open>a\<close> is below or equal to the result for \<open>b\<close> in the
  order that ranks Bytes < KB < MB < GB and compares numeric parts within a unit.
\<close>

theorem convertFileSize_monotone:
  assumes "a \<le> b" and "digits_or_1 digits \<le> 100"
  shows "\<exists>x y. convertFileSize a digits = Inr x \<and> convertFileSize b digits = Inr y
           \<and> formatted_le x y"
proof -
  let ?d = "digits_or_1 digits"
  from convertFileSize_result [OF assms(2), of a] obtain x where
    x: "convertFileSize a digits = Inr x"
      "unitSuffix x = ''Bytes'' \<longleftrightarrow> a < 1024"
      "unitSuffix x = ''KB'' \<longleftrightarrow> 1024 \<le> a \<and> a < 1024 ^ 2"
      "unitSuffix x = ''MB'' \<longleftrightarrow> 1024 ^ 2 \<le> a \<and> a < 1024 ^ 3"
      "unitSuffix x = ''GB'' \<longleftrightarrow> 1024 ^ 3 \<le> a"
      "numericPrefix x = (if a < 1024 then of_nat a
         else nearestDecimal ?d (of_nat a / of_nat (unitBytes (unitSuffix x))))"
    by blast
  from convertFileSize_result [OF assms(2), of b] obtain y where
    y: "convertFileSize b digits = Inr y"
      "unitSuffix y = ''Bytes'' \<longleftrightarrow> b < 1024"
      "unitSuffix y = ''KB'' \<longleftrightarrow> 1024 \<le> b \<and> b < 1024 ^ 2"
      "unitSuffix y = ''MB'' \<longleftrightarrow> 1024 ^ 2 \<le> b \<and> b < 1024 ^ 3"
      "unitSuffix y = ''GB'' \<longleftrightarrow> 1024 ^ 3 \<le> b"
      "numericPrefix y = (if b < 1024 then of_nat b
         else nearestDecimal ?d (of_nat b / of_nat (unitBytes (unitSuffix y))))"
    by blast
  have "formatted_le x y"
  proof (cases "unitSuffix x = unitSuffix y")
    case True
    have "numericPrefix x \<le> numericPrefix y"
    proof (cases "b < 1024")
      case True
      with assms(1) x(6) y(6) show ?thesis by simp
    next
      case False
      with assms(1) x(2) y(2) \<open>unitSuffix x = unitSuffix y\<close> have "\<not> a < 1024" by simp
      have "(of_nat a :: rat) / of_nat (unitBytes (unitSuffix y))
              \<le> of_nat b / of_nat (unitBytes (unitSuffix y))"
        using assms(1) by (simp add: divide_right_mono)
      then show ?thesis
        using x(6) y(6) True False \<open>\<not> a < 1024\<close> by (simp add: nearestDecimal_mono)
    qed
    with True show ?thesis by (simp add: formatted_le_def)
  next
    case False
    have "unitRank (unitSuffix x) < unitRank (unitSuffix y)"
    proof -
      consider (B) "a < 1024" | (K) "1024 \<le> a" "a < 1024 ^ 2"
        | (M) "1024 ^ 2 \<le> a" "a < 1024 ^ 3" | (G) "1024 ^ 3 \<le> a"
        by (simp add: power2_eq_square power3_eq_cube) linarith
      then show ?thesis
      proof cases
        case B
        then have ux: "unitSuffix x = ''Bytes''" using x(2) by simp
        with False have "\<not> b < 1024" using y(2) by auto
        then have "unitSuffix y \<noteq> ''Bytes''" using y(2) by simp
        then show ?thesis by (simp add: ux unitRank_def)
      next
        case K
        then have ux: "unitSuffix x = ''KB''" using x(3) by simp
        with False have "\<not> b < 1024 ^ 2" using y(3) assms(1) K by auto
        then have "unitSuffix y = ''MB'' \<or> unitSuffix y = ''GB''" using y(4,5) by auto
        then show ?thesis by (auto simp: ux unitRank_def)
      next
        case M
        then have ux: "unitSuffix x = ''MB''" using x(4) by simp
        with False have "\<not> b < 1024 ^ 3" using y(4) assms(1) M by auto
        then have "unitSuffix y = ''GB''" using y(5) by auto
        then show ?thesis by (simp add: ux unitRank_def)
      next
        case G
        then have "unitSuffix x = ''GB''" using x(5) by simp
        moreover have "unitSuffix y = ''GB''" using y(5) G assms(1) by auto
        ultimately show ?thesis using False by simp
      qed
    qed
    then show ?thesis by (simp add: formatted_le_def)
  qed
  with x(1) y(1) show ?thesis by blast
qed

theorem convertFileSize_monotone_witness:
  "(512::nat) \<le> 1536 \<and> digits_or_1 None \<le> 100 \<and>
   (\<exists>x y. convertFileSize 512 None = Inr x \<and> convertFileSize 1536 None = Inr y
      \<and> formatted_le x y)"
  using convertFileSize_monotone [of 512 1536 None] by (simp add: digits_or_1_def)

subsection \<open>\<open>calculatePercentage\<close>\<close>

lemma calculatePercentage_eq:
  "calculatePercentage s = Inr (nearestDecimal 2 (of_nat s / (2 * 1024 * 1024 * 1024) * 100))"
proof -
  have "(0::rat) \<le> of_nat s / (2 * 1024 * 1024 * 1024) * 100" by simp
  from toFixed_value [OF this, of 2] obtain str where
    "toFixed (of_nat s / (2 * 1024 * 1024 * 1024) * 100) 2 = Inr str"
    "Number str = nearestDecimal 2 (of_nat s / (2 * 1024 * 1024 * 1024) * 100)"
    unfolding nearestDecimal_def by auto
  then show ?thesis by (simp add: calculatePercentage_def)
qed

text \<open>
  Claim C1 says the percentage is capped at 100, as the doc comment of \<open>calculatePercentage\<close>
  promises (\<^verbatim>\<open>max: 100\<close>). The code has no cap: 4 GiB, twice the quota, gives 200.
\<close>

theorem calculatePercentage_uncapped:
  "calculatePercentage (4 * 1024 * 1024 * 1024) = Inr 200"
  unfolding calculatePercentage_eq by (simp add: nearestDecimal_def floor_eq_iff)

subsection \<open>\<open>getFileType\<close>\<close>

lemma toLowerCase_upper:
  "c \<in> set upperCaseLetters \<Longrightarrow>
     isUpperCode (of_char c) \<and> of_char (toLowerCase_char c) = (of_char c :: nat) + 32"
  by (auto simp: toLowerCase_char_def upperCaseLetters_def lowerCaseLetters_def isUpperCode_def)

lemma upperCaseLetters_codes:
  "map of_char upperCaseLetters = ([65..<91] @ [192..<215] @ [216..<223] :: nat list)"
  by (simp add: upperCaseLetters_def)

lemma isUpperCode_letter: "isUpperCode (of_char c) \<Longrightarrow> c \<in> set upperCaseLetters"
proof -
  assume "isUpperCode (of_char c)"
  then have "(of_char c :: nat) \<in> set ([65..<91] @ [192..<215] @ [216..<223])"
    by (auto simp: isUpperCode_def simp del: upt_rec_numeral)
  then have "(of_char c :: nat) \<in> set (map of_char upperCaseLetters)"
    by (simp only: upperCaseLetters_codes)
  then obtain u where "u \<in> set upperCaseLetters" "(of_char u :: nat) = of_char c"
    by auto
  then show ?thesis by simp
qed

lemma toLowerCase_char_code: "of_char (toLowerCase_char c) = lowerCaseCode (of_char c)"
proof (cases "c \<in> set upperCaseLetters")
  case True
  then show ?thesis using toLowerCase_upper by (simp add: lowerCaseCode_def)
next
  case False
  then have "\<not> isUpperCode (of_char c)" using isUpperCode_letter by blast
  moreover have "length upperCaseLetters = length lowerCaseLetters"
    by (simp add: upperCaseLetters_def lowerCaseLetters_def)
  then have "map_of (zip upperCaseLetters lowerCaseLetters) c = None"
    using False by (simp add: map_of_zip_is_None)
  ultimately show ?thesis by (simp add: toLowerCase_char_def lowerCaseCode_def)
qed

lemma toLowerCase_codes:
  "map of_char (toLowerCase s) = map lowerCaseCode (map of_char s)"
  by (simp add: toLowerCase_def toLowerCase_char_code)

lemma codes_determine_string:
  "map (of_char :: char \<Rightarrow> nat) s = map of_char t \<Longrightarrow> s = t"
proof -
  have "inj (of_char :: char \<Rightarrow> nat)" by (rule injI) simp
  then show "map (of_char :: char \<Rightarrow> nat) s = map of_char t \<Longrightarrow> s = t"
    by (simp add: inj_map_eq_map)
qed





lemma getFileType_Some:
  "fileExtension fileName = Some ext \<Longrightarrow>
   getFileType fileName =
     (if ext = '''' then \<lparr>ftype = ''other'', extension = ''''\<rparr>
      else if ext \<in> set documentExtensions then \<lparr>ftype = ''document'', extension = ext\<rparr>
      else if ext \<in> set imageExtensions then \<lparr>ftype = ''image'', extension = ext\<rparr>
      else if ext \<in> set videoExtensions then \<lparr>ftype = ''video'', extension = ext\<rparr>
      else if ext \<in> set audioExtensions then \<lparr>ftype = ''audio'', extension = ext\<rparr>
      else \<lparr>ftype = ''other'', extension = ext\<rparr>)"
  by (simp add: getFileType_def)



text \<open>
  Claim C10. For a file name without a dot the extension is the whole name lowercased: its
  code units are those of the name, with 32 added to each upper-case one. That extension
  is classified against the extension lists, so \<open>PDF\<close> is a document with extension \<open>pdf\<close>.
  And for every file name the fallback result \<open>{type: "other", extension: ""}\<close> is
  returned exactly when the computed extension is empty.
\<close>

theorem getFileType_no_dot:
  "(CHR ''.'' \<notin> set fileName \<longrightarrow>
      (\<exists>ext. map of_char ext = map lowerCaseCode (map of_char fileName)
         \<and> fileExtension fileName = Some ext
         \<and> getFileType fileName =
             (if ext = '''' then \<lparr>ftype = ''other'', extension = ''''\<rparr>
              else if ext \<in> set documentExtensions then \<lparr>ftype = ''document'', extension = ext\<rparr>
              else if ext \<in> set imageExtensions then \<lparr>ftype = ''image'', extension = ext\<rparr>
              else if ext \<in> set videoExtensions then \<lparr>ftype = ''video'', extension = ext\<rparr>
              else if ext \<in> set audioExtensions then \<lparr>ftype = ''audio'', extension = ext\<rparr>
              else \<lparr>ftype = ''other'', extension = ext\<rparr>)))
   \<and> (getFileType fileName = \<lparr>ftype = ''other'', extension = ''''\<rparr>
        \<longleftrightarrow> fileExtension fileName = Some '''')"
proof (intro conjI impI)
  assume nd: "CHR ''.'' \<notin> set fileName"
  have e: "fileExtension fileName = Some (toLowerCase fileName)"
    using nd by (rule fileExtension_no_dot)
  have c: "map of_char (toLowerCase fileName) = map lowerCaseCode (map of_char fileName)"
    by (rule toLowerCase_codes)
  from c e getFileType_Some [OF e]
  show "\<exists>ext. map of_char ext = map lowerCaseCode (map of_char fileName)
         \<and> fileExtension fileName = Some ext
         \<and> getFileType fileName =
             (if ext = '''' then \<lparr>ftype = ''other'', extension = ''''\<rparr>
              else if ext \<in> set documentExtensions then \<lparr>ftype = ''document'', extension = ext\<rparr>
              else if ext \<in> set imageExtensions then \<lparr>ftype = ''image'', extension = ext\<rparr>
              else if ext \<in> set videoExtensions then \<lparr>ftype = ''video'', extension = ext\<rparr>
              else if ext \<in> set audioExtensions then \<lparr>ftype = ''audio'', extension = ext\<rparr>
              else \<lparr>ftype = ''other'', extension = ext\<rparr>)"
    by blast
next
  obtain ext where ext: "fileExtension fileName = Some ext"
    using fileExtension_Some by blast
  show "getFileType fileName = \<lparr>ftype = ''other'', extension = ''''\<rparr>
        \<longleftrightarrow> fileExtension fileName = Some ''''"
    unfolding getFileType_Some [OF ext] ext by auto
qed

theorem getFileType_no_dot_witness:
  "CHR ''.'' \<notin> set ''PDF''
   \<and> getFileType ''PDF'' = \<lparr>ftype = ''document'', extension = ''pdf''\<rparr>
   \<and> CHR ''.'' \<notin> set ''pdf''
   \<and> getFileType ''pdf'' = \<lparr>ftype = ''document'', extension = ''pdf''\<rparr>
   \<and> CHR ''.'' \<notin> set [CHR 0xC9]
   \<and> getFileType [CHR 0xC9] = \<lparr>ftype = ''other'', extension = [CHR 0xE9]\<rparr>"
proof -
  have nd: "CHR ''.'' \<notin> set ''PDF''" by simp
  from getFileType_no_dot [of "''PDF''"] nd obtain ext where
    codes: "map of_char ext = map lowerCaseCode (map of_char ''PDF'')"
    and g: "getFileType ''PDF'' =
             (if ext = '''' then \<lparr>ftype = ''other'', extension = ''''\<rparr>
              else if ext \<in> set documentExtensions then \<lparr>ftype = ''document'', extension = ext\<rparr>
              else if ext \<in> set imageExtensions then \<lparr>ftype = ''image'', extension = ext\<rparr>
              else if ext \<in> set videoExtensions then \<lparr>ftype = ''video'', extension = ext\<rparr>
              else if ext \<in> set audioExtensions then \<lparr>ftype = ''audio'', extension = ext\<rparr>
              else \<lparr>ftype = ''other'', extension = ext\<rparr>)"
    by blast
  have "map lowerCaseCode (map of_char ''PDF'') = map of_char ''pdf''"
    by (simp add: lowerCaseCode_def isUpperCode_def)
  with codes have ext: "ext = ''pdf''" by (simp add: codes_determine_string)
  have pdf: "getFileType ''PDF'' = \<lparr>ftype = ''document'', extension = ''pdf''\<rparr>"
    unfolding g ext by (simp add: documentExtensions_def)
  have nd': "CHR ''.'' \<notin> set [CHR 0xC9]" by simp
  from getFileType_no_dot [of "[CHR 0xC9]"] nd' obtain ext' where
    codes': "map of_char ext' = map lowerCaseCode (map of_char [CHR 0xC9])"
    and g': "getFileType [CHR 0xC9] =
             (if ext' = '''' then \<lparr>ftype = ''other'', extension = ''''\<rparr>
              else if ext' \<in> set documentExtensions then \<lparr>ftype = ''document'', extension = ext'\<rparr>
              else if ext' \<in> set imageExtensions then \<lparr>ftype = ''image'', extension = ext'\<rparr>
              else if ext' \<in> set videoExtensions then \<lparr>ftype = ''video'', extension = ext'\<rparr>
              else if ext' \<in> set audioExtensions then \<lparr>ftype = ''audio'', extension = ext'\<rparr>
              else \<lparr>ftype = ''other'', extension = ext'\<rparr>)"
    by blast
  have "map lowerCaseCode (map of_char [CHR 0xC9]) = map of_char [CHR 0xE9]"
    by (simp add: lowerCaseCode_def isUpperCode_def)
  with codes' have ext': "ext' = [CHR 0xE9]" by (simp add: codes_determine_string)
  have e_acute: "getFileType [CHR 0xC9] = \<lparr>ftype = ''other'', extension = [CHR 0xE9]\<rparr>"
    unfolding g' ext'
    by (simp add: documentExtensions_def imageExtensions_def videoExtensions_def
        audioExtensions_def)
  have nd'': "CHR ''.'' \<notin> set ''pdf''" by simp
  from getFileType_no_dot [of "''pdf''"] nd'' obtain ext'' where
    codes'': "map of_char ext'' = map lowerCaseCode (map of_char ''pdf'')"
    and g'': "getFileType ''pdf'' =
             (if ext'' = '''' then \<lparr>ftype = ''other'', extension = ''''\<rparr>
              else if ext'' \<in> set documentExtensions then \<lparr>ftype = ''document'', extension = ext''\<rparr>
              else if ext'' \<in> set imageExtensions then \<lparr>ftype = ''image'', extension = ext''\<rparr>
              else if ext'' \<in> set videoExtensions then \<lparr>ftype = ''video'', extension = ext''\<rparr>
              else if ext'' \<in> set audioExtensions then \<lparr>ftype = ''audio'', extension = ext''\<rparr>
              else \<lparr>ftype = ''other'', extension = ext''\<rparr>)"
    by blast
  have "map lowerCaseCode (map of_char ''pdf'') = map of_char ''pdf''"
    by (simp add: lowerCaseCode_def isUpperCode_def)
  with codes'' have ext'': "ext'' = ''pdf''" by (simp add: codes_determine_string)
  have pdf_lower: "getFileType ''pdf'' = \<lparr>ftype = ''document'', extension = ''pdf''\<rparr>"
    unfolding g'' ext'' by (simp add: documentExtensions_def)
  from nd pdf nd'' pdf_lower nd' e_acute show ?thesis by blast
qed

section \<open>Properties of the upload component and of the sort keys\<close>

lemma foldl_startUpload:
  "files (foldl startUpload st fs) =
     filter (\<lambda>f. fname f \<notin> fname ` {g \<in> set fs. fsize g > MAX_FILE_SIZE}) (files st)
   \<and> toasts (foldl startUpload st fs) =
       toasts st @ map fname (filter (\<lambda>f. fsize f > MAX_FILE_SIZE) fs)
   \<and> uploadCalls (foldl startUpload st fs) =
       uploadCalls st @ filter (\<lambda>f. \<not> fsize f > MAX_FILE_SIZE) fs"
proof (induction fs arbitrary: st)
  case Nil
  show ?case by simp
next
  case (Cons a fs)
  show ?case
  proof (cases "fsize a > MAX_FILE_SIZE")
    case True
    have "{g \<in> set (a # fs). fsize g > MAX_FILE_SIZE}
            = insert a {g \<in> set fs. fsize g > MAX_FILE_SIZE}"
      using True by auto
    then show ?thesis
      using True Cons.IH [of "startUpload st a"]
      by (auto simp: startUpload_def intro: filter_cong)
  next
    case False
    have "{g \<in> set (a # fs). fsize g > MAX_FILE_SIZE} = {g \<in> set fs. fsize g > MAX_FILE_SIZE}"
      using False by auto
    then show ?thesis
      using False Cons.IH [of "startUpload st a"]
      by (simp add: startUpload_def)
  qed
qed

lemma foldl_finishUpload:
  "set (files (foldl (finishUpload outcome) st fs)) \<subseteq> set (files st)
   \<and> toasts (foldl (finishUpload outcome) st fs) = toasts st
   \<and> uploadCalls (foldl (finishUpload outcome) st fs) = uploadCalls st"
proof (induction fs arbitrary: st)
  case Nil
  show ?case by simp
next
  case (Cons a fs)
  have step: "set (files (finishUpload outcome st a)) \<subseteq> set (files st)
      \<and> toasts (finishUpload outcome st a) = toasts st
      \<and> uploadCalls (finishUpload outcome st a) = uploadCalls st"
    by (auto simp: finishUpload_def split: sum.splits bool.splits)
  with Cons.IH [of "finishUpload outcome st a"] show ?case by auto
qed

text \<open>
  Claim C9. \<open>onDrop\<close> never calls \<open>uploadFile\<close> for a file larger than \<open>MAX_FILE_SIZE\<close>
  (50 MiB): the calls it makes are the accepted files within the limit, and every accepted
  file above the limit is gone from the pending list and has an error toast issued for it.
\<close>

theorem onDrop_rejects_oversized:
  "uploadCalls (onDrop outcome acceptedFiles st) =
      uploadCalls st @ filter (\<lambda>f. \<not> fsize f > MAX_FILE_SIZE) acceptedFiles
   \<and> (\<forall>file \<in> set acceptedFiles. fsize file > MAX_FILE_SIZE \<longrightarrow>
         file \<notin> set (filter (\<lambda>f. \<not> fsize f > MAX_FILE_SIZE) acceptedFiles)
         \<and> file \<notin> set (files (onDrop outcome acceptedFiles st))
         \<and> fname file \<in> set (toasts (onDrop outcome acceptedFiles st)))"
proof -
  let ?st1 = "foldl startUpload (st\<lparr>files := acceptedFiles\<rparr>) acceptedFiles"
  have calls: "uploadCalls (onDrop outcome acceptedFiles st) =
      uploadCalls st @ filter (\<lambda>f. \<not> fsize f > MAX_FILE_SIZE) acceptedFiles"
    unfolding onDrop_def
    using foldl_finishUpload [of outcome ?st1 acceptedFiles]
      foldl_startUpload [of "st\<lparr>files := acceptedFiles\<rparr>" acceptedFiles]
    by simp
  have pending: "set (files (onDrop outcome acceptedFiles st)) \<subseteq> set (files ?st1)"
    unfolding onDrop_def using foldl_finishUpload [of outcome ?st1 acceptedFiles] by blast
  have toasted: "toasts (onDrop outcome acceptedFiles st) =
      toasts st @ map fname (filter (\<lambda>f. fsize f > MAX_FILE_SIZE) acceptedFiles)"
    unfolding onDrop_def
    using foldl_finishUpload [of outcome ?st1 acceptedFiles]
      foldl_startUpload [of "st\<lparr>files := acceptedFiles\<rparr>" acceptedFiles]
    by simp
  have each: "x \<notin> set (filter (\<lambda>f. \<not> fsize f > MAX_FILE_SIZE) acceptedFiles)
         \<and> x \<notin> set (files (onDrop outcome acceptedFiles st))
         \<and> fname x \<in> set (toasts (onDrop outcome acceptedFiles st))"
    if "x \<in> set acceptedFiles" and "fsize x > MAX_FILE_SIZE" for x
  proof -
    have "x \<notin> set (files ?st1)"
      using that foldl_startUpload [of "st\<lparr>files := acceptedFiles\<rparr>" acceptedFiles] by auto
    with pending have "x \<notin> set (files (onDrop outcome acceptedFiles st))" by blast
    moreover have "fname x \<in> set (toasts (onDrop outcome acceptedFiles st))"
      unfolding toasted using that by auto
    ultimately show ?thesis using that by simp
  qed
  from calls each show ?thesis by blast
qed

theorem onDrop_rejects_oversized_witness:
  "demo_big \<in> set [demo_big, demo_upload] \<and> fsize demo_big > MAX_FILE_SIZE
   \<and> uploadCalls (onDrop (\<lambda>_. Inr True) [demo_big, demo_upload] uploader0) = [demo_upload]
   \<and> demo_big \<notin> set (files (onDrop (\<lambda>_. Inr True) [demo_big, demo_upload] uploader0))
   \<and> fname demo_big \<in> set (toasts (onDrop (\<lambda>_. Inr True) [demo_big, demo_upload] uploader0))"
proof -
  have big: "fsize demo_big > MAX_FILE_SIZE" by (simp add: demo_big_def MAX_FILE_SIZE_def)
  have small: "\<not> fsize demo_upload > MAX_FILE_SIZE" by (simp add: demo_upload_def MAX_FILE_SIZE_def)
  from onDrop_rejects_oversized [of "\<lambda>_. Inr True" "[demo_big, demo_upload]" uploader0] big small
  show ?thesis by (simp add: uploader0_def)
qed

subsection \<open>Sort keys\<close>

lemma split_str_sep:
  "sep \<notin> set a \<Longrightarrow> split_str sep (a @ sep # rest) = a # split_str sep rest"
  by (induction a) auto

lemma sortBy_orderBy_form:
  assumes "CHR ''-'' \<notin> set field" and "CHR ''-'' \<notin> set ord"
  shows "sortBy_orderBy (field @ ''-'' @ ord) = (field, Some ord)"
  using split_str_sep [OF assms(1), of ord] split_str_no_sep [OF assms(2)]
  by (simp add: sortBy_orderBy_def)

lemma createQueries_no_sort:
  "filter isOrder (createQueries u types searchText '''' limit) = []"
  by (simp add: createQueries_def split: option.splits)

lemma createQueries_sorted:
  assumes "CHR ''-'' \<notin> set field" and "CHR ''-'' \<notin> set ord"
  shows "createQueries u types searchText (field @ ''-'' @ ord) limit =
           createQueries u types searchText '''' limit
             @ [if ord = ''asc'' then OrderAsc field else OrderDesc field]"
  using sortBy_orderBy_form [OF assms] by (simp add: createQueries_def)

section \<open>Properties of the server actions\<close>

lemmas action_simps =
  ret_def throw_def bnd_def try_catch_def try_finally_def sdk_def console_log_def
  revalidatePath_def redirect_def createAdminClient_def handleError_def set_cookie_def
  delete_cookie_def storage_createFile_call_def storage_deleteFile_call_def
  createSessionClient_def

lemmas outcome_simps = logged_and_rethrown_def new_log_def new_requests_def

lemma sendEmailOTP_rethrows:
  "account_createEmailToken b mail = Inl e \<Longrightarrow>
   logged_and_rethrown e ''Failed to send email OTP'' w (sendEmailOTP b mail w)"
  by (simp add: sendEmailOTP_def action_simps outcome_simps)

lemma verifySecret_rethrows:
  "account_createSession b acct password = Inl e \<Longrightarrow>
   logged_and_rethrown e ''Failed to verify OTP'' w (verifySecret b acct password w)"
  by (simp add: verifySecret_def action_simps outcome_simps)

lemma signInUser_rethrows_lookup:
  "databases_listUsers b [Equal ''email'' [mail]] = Inl e \<Longrightarrow>
   logged_and_rethrown e ''Failed to sign in user'' w (signInUser b mail w)"
  by (simp add: signInUser_def getUserByEmail_def action_simps outcome_simps)

lemma signInUser_rethrows_otp:
  "databases_listUsers b [Equal ''email'' [mail]] = Inr r \<Longrightarrow> 0 < total r \<Longrightarrow>
   first_document (documents r) = Val u \<Longrightarrow> account_createEmailToken b mail = Inl e \<Longrightarrow>
   logged_and_rethrown e ''Failed to sign in user'' w (signInUser b mail w)"
  by (simp add: signInUser_def getUserByEmail_def sendEmailOTP_def action_simps outcome_simps)

lemma renameFile_rethrows:
  "databases_updateFile b fileId (SetName (name @ ''.'' @ ext)) = Inl e \<Longrightarrow>
   logged_and_rethrown e ''Failed to rename file'' w (renameFile b fileId name ext path w)"
  by (simp add: renameFile_def action_simps outcome_simps Let_def)

lemma updateFileUsers_rethrows:
  "databases_updateFile b fileId (SetUsers emails) = Inl e \<Longrightarrow>
   logged_and_rethrown e ''Failed to update file users'' w (updateFileUsers b fileId emails path w)"
  by (simp add: updateFileUsers_def action_simps outcome_simps)

lemma deleteFile_rethrows_document:
  "databases_deleteFile b fileId = Inl e \<Longrightarrow>
   logged_and_rethrown e ''Failed to delete file'' w (deleteFile b fileId bucketFileId path w)"
  by (simp add: deleteFile_def action_simps outcome_simps)

lemma deleteFile_rethrows_blob:
  "databases_deleteFile b fileId = Inr True \<Longrightarrow> storage_deleteFile b bucketFileId = Inl e \<Longrightarrow>
   logged_and_rethrown e ''Failed to delete file'' w (deleteFile b fileId bucketFileId path w)"
  by (simp add: deleteFile_def action_simps outcome_simps)

lemma uploadFile_rethrows_blob:
  "storage_createFile b file = Inl e \<Longrightarrow>
   logged_and_rethrown e ''Failed to upload file'' w (uploadFile b env file ownerId acct path w)"
  by (simp add: uploadFile_def action_simps outcome_simps)

lemma getCurrentUser_signed_in:
  "signed_in b w u \<Longrightarrow>
   \<exists>resultId. getCurrentUser b w =
     (Inr (Val u), w\<lparr>requests := requests w @ [AccountGet, ListUsers [Equal ''accountId'' [resultId]]]\<rparr>)"
  by (auto simp: signed_in_def getCurrentUser_def action_simps
      split: option.splits sum.splits)

lemma getFiles_rethrows:
  assumes "signed_in b w u"
    and "databases_listFiles b (createQueries u types searchText sort' limit) = Inl e"
  shows "logged_and_rethrown e ''Failed to get files'' w
           (getFiles b (Some types) (Some searchText) (Some sort') limit w)"
proof -
  from getCurrentUser_signed_in [OF assms(1)] obtain resultId where
    "getCurrentUser b w =
      (Inr (Val u), w\<lparr>requests := requests w @ [AccountGet, ListUsers [Equal ''accountId'' [resultId]]]\<rparr>)"
    by blast
  then show ?thesis
    using assms(2) by (simp add: getFiles_def action_simps outcome_simps)
qed

lemma getTotalSpaceUsed_rethrows:
  assumes "signed_in b w u"
    and "databases_listFiles b [Equal ''owner'' [user_id u]] = Inl e"
  shows "logged_and_rethrown e ''Error calculating total space used'' w (getTotalSpaceUsed D b w)"
proof -
  from getCurrentUser_signed_in [OF assms(1)] obtain resultId where
    "getCurrentUser b w =
      (Inr (Val u), w\<lparr>requests := requests w @ [AccountGet, ListUsers [Equal ''accountId'' [resultId]]]\<rparr>)"
    by blast
  moreover have "\<exists>s. cookie w = Some s \<and> s \<noteq> ''''"
    using assms(1) by (auto simp: signed_in_def split: option.splits)
  ultimately show ?thesis
    using assms(2) by (auto simp: getTotalSpaceUsed_def action_simps outcome_simps)
qed

lemma getCurrentUser_swallows_account:
  "cookie w = Some s \<Longrightarrow> s \<noteq> '''' \<Longrightarrow> account_get b s = Inl e \<Longrightarrow>
   fst (getCurrentUser b w) = Inr Undefined \<and> new_log w (getCurrentUser b w) = [LogError e]
   \<and> new_requests w (getCurrentUser b w) = [AccountGet]"
  by (simp add: getCurrentUser_def action_simps outcome_simps)

lemma getCurrentUser_swallows_lookup:
  "cookie w = Some s \<Longrightarrow> s \<noteq> '''' \<Longrightarrow> account_get b s = Inr resultId \<Longrightarrow>
   databases_listUsers b [Equal ''accountId'' [resultId]] = Inl e \<Longrightarrow>
   fst (getCurrentUser b w) = Inr Undefined \<and> new_log w (getCurrentUser b w) = [LogError e]
   \<and> new_requests w (getCurrentUser b w) = [AccountGet, ListUsers [Equal ''accountId'' [resultId]]]"
  by (simp add: getCurrentUser_def action_simps outcome_simps)

lemma getFiles_after_swallow:
  "cookie w = Some s \<Longrightarrow> s \<noteq> '''' \<Longrightarrow> account_get b s = Inl e \<Longrightarrow>
   fst (getFiles b types searchText sort' limit w) = Inl (Error ''User not found'')
   \<and> new_log w (getFiles b types searchText sort' limit w) =
       [LogError e, LogErrorMessage (Error ''User not found'') ''Failed to get files'']"
  by (simp add: getFiles_def getCurrentUser_def action_simps outcome_simps Let_def)

lemma getTotalSpaceUsed_after_swallow:
  "cookie w = Some s \<Longrightarrow> s \<noteq> '''' \<Longrightarrow> account_get b s = Inl e \<Longrightarrow>
   fst (getTotalSpaceUsed D b w) = Inl (Error ''User is not authenticated.'')
   \<and> new_log w (getTotalSpaceUsed D b w) =
       [LogError e,
        LogErrorMessage (Error ''User is not authenticated.'') ''Error calculating total space used'']"
  by (simp add: getTotalSpaceUsed_def getCurrentUser_def action_simps outcome_simps)

lemma createAccount_unlogged_lookup:
  "databases_listUsers b [Equal ''email'' [mail]] = Inl e \<Longrightarrow>
   fst (createAccount b name mail w) = Inl e \<and> new_log w (createAccount b name mail w) = []"
  by (simp add: createAccount_def getUserByEmail_def action_simps outcome_simps)

lemma createAccount_unlogged_create:
  "databases_listUsers b [Equal ''email'' [mail]] = Inr r \<Longrightarrow> total r = 0 \<Longrightarrow>
   account_createEmailToken b mail = Inr newAccountId \<Longrightarrow> newAccountId \<noteq> '''' \<Longrightarrow>
   databases_createUser b \<lparr>fullName = name, email = mail, avatar = avatarPlaceholderUrl,
                            accountId = newAccountId\<rparr> = Inl e \<Longrightarrow>
   fst (createAccount b name mail w) = Inl e \<and> new_log w (createAccount b name mail w) = []"
  by (simp add: createAccount_def getUserByEmail_def sendEmailOTP_def action_simps
      outcome_simps Let_def)

lemma signOutUser_redirects:
  "cookie w = Some s \<Longrightarrow> s \<noteq> '''' \<Longrightarrow> account_deleteSession b ''current'' = Inl e \<Longrightarrow>
   fst (signOutUser b w) = Inl (NextRedirect ''/sign-in'')
   \<and> new_log w (signOutUser b w) = [LogErrorMessage e ''Failed to sign out user'']"
  by (simp add: signOutUser_def action_simps outcome_simps)

subsection \<open>No request is sent twice\<close>

lemma sendEmailOTP_requests:
  "new_requests w (sendEmailOTP b mail w) = [CreateEmailToken mail]"
  by (simp add: sendEmailOTP_def action_simps outcome_simps split: sum.splits)

lemma getUserByEmail_requests:
  "new_requests w (getUserByEmail b mail w) = [ListUsers [Equal ''email'' [mail]]]"
  by (simp add: getUserByEmail_def action_simps outcome_simps split: sum.splits)

lemma createAccount_no_retry: "distinct (new_requests w (createAccount b name mail w))"
  by (simp add: createAccount_def getUserByEmail_def sendEmailOTP_def action_simps
      outcome_simps Let_def split: sum.splits)

lemma verifySecret_no_retry: "distinct (new_requests w (verifySecret b acct password w))"
  by (simp add: verifySecret_def action_simps outcome_simps split: sum.splits)

lemma getCurrentUser_no_retry: "distinct (new_requests w (getCurrentUser b w))"
  by (simp add: getCurrentUser_def action_simps outcome_simps
      split: sum.splits option.splits nullable.splits)

lemma signOutUser_no_retry: "distinct (new_requests w (signOutUser b w))"
  by (simp add: signOutUser_def action_simps outcome_simps split: sum.splits option.splits)

lemma signInUser_no_retry: "distinct (new_requests w (signInUser b mail w))"
  by (simp add: signInUser_def getUserByEmail_def sendEmailOTP_def action_simps
      outcome_simps split: sum.splits nullable.splits)

lemma uploadFile_no_retry:
  "distinct (new_requests w (uploadFile b env file ownerId acct path w))"
  by (simp add: uploadFile_def action_simps outcome_simps split: sum.splits)

lemma renameFile_no_retry:
  "distinct (new_requests w (renameFile b fileId name ext path w))"
  by (simp add: renameFile_def action_simps outcome_simps Let_def split: sum.splits)

lemma updateFileUsers_no_retry:
  "distinct (new_requests w (updateFileUsers b fileId emails path w))"
  by (simp add: updateFileUsers_def action_simps outcome_simps split: sum.splits)

lemma deleteFile_no_retry:
  "distinct (new_requests w (deleteFile b fileId bucketFileId path w))"
  by (simp add: deleteFile_def action_simps outcome_simps split: sum.splits)

lemma getCurrentUser_shape:
  assumes "getCurrentUser b w = (r, w')"
  shows "(\<exists>v. r = Inr v)
    \<and> (\<exists>rs. requests w' = requests w @ rs \<and> distinct rs \<and> (\<forall>q. ListFiles q \<notin> set rs))"
  using assms
  by (auto simp: getCurrentUser_def action_simps
      split: sum.splits option.splits nullable.splits if_splits)

lemma getFiles_no_retry:
  "distinct (new_requests w (getFiles b types searchText sort' limit w))"
proof (cases "getCurrentUser b w")
  case (Pair r w')
  from getCurrentUser_shape [OF Pair] obtain v rs where
    r: "r = Inr v" and rs: "requests w' = requests w @ rs" "distinct rs"
      "\<forall>q. ListFiles q \<notin> set rs"
    by blast
  show ?thesis
    using rs
    by (cases v)
      (simp_all add: getFiles_def Pair r action_simps outcome_simps Let_def split: sum.splits)
qed

lemma getTotalSpaceUsed_no_retry: "distinct (new_requests w (getTotalSpaceUsed D b w))"
proof (cases "\<exists>s. cookie w = Some s \<and> s \<noteq> ''''")
  case False
  then show ?thesis
    by (auto simp: getTotalSpaceUsed_def action_simps outcome_simps split: option.splits)
next
  case True
  obtain r w' where g: "getCurrentUser b w = (r, w')"
    by (cases "getCurrentUser b w")
  from getCurrentUser_shape [OF g] obtain v rs where
    r: "r = Inr v" and rs: "requests w' = requests w @ rs" "distinct rs"
      "\<forall>q. ListFiles q \<notin> set rs"
    by blast
  show ?thesis
    using rs True
    by (cases v)
      (auto simp: getTotalSpaceUsed_def g r action_simps outcome_simps split: sum.splits)
qed

subsection \<open>The rollback of \<open>uploadFile\<close>\<close>

lemma uploadFile_rollback_done:
  assumes "storage_createFile b file = Inr bucketFile"
    and "databases_createFile b (fileDocument env bucketFile ownerId acct) = Inl e"
    and "storage_deleteFile b (bucket_file_id bucketFile) = Inr ()"
  shows "fst (uploadFile b env file ownerId acct path w) = Inl e
    \<and> bucket_file_id bucketFile \<notin> set (bucket (snd (uploadFile b env file ownerId acct path w)))
    \<and> new_log w (uploadFile b env file ownerId acct path w) =
        [LogErrorMessage e ''Failed to create file document'',
         LogErrorMessage e ''Failed to upload file'']"
  using assms by (simp add: uploadFile_def action_simps outcome_simps)

lemma uploadFile_rollback_failed:
  assumes "storage_createFile b file = Inr bucketFile"
    and "databases_createFile b (fileDocument env bucketFile ownerId acct) = Inl e"
    and "storage_deleteFile b (bucket_file_id bucketFile) = Inl e'"
  shows "fst (uploadFile b env file ownerId acct path w) = Inl e'
    \<and> bucket (snd (uploadFile b env file ownerId acct path w)) =
        bucket w @ [bucket_file_id bucketFile]
    \<and> new_log w (uploadFile b env file ownerId acct path w) =
        [LogErrorMessage e' ''Failed to upload file'']"
  using assms by (simp add: uploadFile_def action_simps outcome_simps)

lemma uploadFile_rollback_requests:
  assumes "storage_createFile b file = Inr bucketFile"
    and "databases_createFile b (fileDocument env bucketFile ownerId acct) = Inl e"
  shows "new_requests w (uploadFile b env file ownerId acct path w) =
        [StorageCreateFile file, CreateFileDocument (fileDocument env bucketFile ownerId acct),
         StorageDeleteFile (bucket_file_id bucketFile)]
    \<and> revalidated (snd (uploadFile b env file ownerId acct path w)) = revalidated w"
  using assms by (simp add: uploadFile_def action_simps outcome_simps split: sum.splits)

subsection \<open>The default sort of \<open>getFiles\<close>\<close>

lemma getFiles_default_sort:
  "getFiles b types searchText None limit = getFiles b types searchText (Some ''$createdAt-desc'') limit"
  by (simp add: getFiles_def)

lemma getFiles_request:
  assumes "signed_in b w u"
  shows "\<exists>earlier. new_requests w (getFiles b (Some types) (Some searchText) (Some sort') limit w) =
           earlier @ [ListFiles (createQueries u types searchText sort' limit)]"
proof -
  from getCurrentUser_signed_in [OF assms] obtain resultId where
    "getCurrentUser b w =
      (Inr (Val u), w\<lparr>requests := requests w @ [AccountGet, ListUsers [Equal ''accountId'' [resultId]]]\<rparr>)"
    by blast
  then show ?thesis
    by (simp add: getFiles_def action_simps outcome_simps split: sum.splits)
qed

lemma signed_in_demo: "signed_in backend_up world0 demo_user"
  by (simp add: signed_in_def backend_up_def world0_def first_document_def)

text \<open>
  Claim C8. For a sort string \<open>field-order\<close> whose two tokens contain no dash,
  \<open>createQueries\<close> appends exactly one ordering clause, on \<open>field\<close>, ascending iff the order
  token is \<open>asc\<close> and descending otherwise; and \<open>getFiles\<close> called without a sort behaves as
  with \<open>$createdAt-desc\<close>: the listing it requests ends with a descending order on
  \<open>$createdAt\<close>.
\<close>

theorem createQueries_sort_clause:
  assumes "CHR ''-'' \<notin> set field" and "CHR ''-'' \<notin> set ord"
  shows "createQueries u types searchText (field @ ''-'' @ ord) limit =
           createQueries u types searchText '''' limit
             @ [if ord = ''asc'' then OrderAsc field else OrderDesc field]
      \<and> filter isOrder (createQueries u types searchText (field @ ''-'' @ ord) limit) =
           [if ord = ''asc'' then OrderAsc field else OrderDesc field]
      \<and> getFiles b types_opt searchText_opt None limit =
           getFiles b types_opt searchText_opt (Some ''$createdAt-desc'') limit
      \<and> (signed_in b w u \<longrightarrow>
           (\<exists>earlier. new_requests w (getFiles b (Some types) (Some searchText) None limit w) =
              earlier @ [ListFiles (createQueries u types searchText '''' limit
                                      @ [OrderDesc ''$createdAt''])]))"
proof -
  note eq = createQueries_sorted [OF assms, of u types searchText limit]
  have one: "filter isOrder (createQueries u types searchText (field @ ''-'' @ ord) limit) =
           [if ord = ''asc'' then OrderAsc field else OrderDesc field]"
    unfolding eq by (simp add: createQueries_no_sort)
  have dflt: "createQueries u types searchText ''$createdAt-desc'' limit =
      createQueries u types searchText '''' limit @ [OrderDesc ''$createdAt'']"
    using createQueries_sorted [of "''$createdAt''" "''desc''" u types searchText limit] by simp
  have req: "\<exists>earlier. new_requests w (getFiles b (Some types) (Some searchText) None limit w) =
              earlier @ [ListFiles (createQueries u types searchText '''' limit
                                      @ [OrderDesc ''$createdAt''])]"
    if "signed_in b w u"
    using getFiles_request [OF that, of types searchText "''$createdAt-desc''" limit]
    unfolding getFiles_default_sort dflt .
  from eq one getFiles_default_sort req show ?thesis by blast
qed

theorem createQueries_sort_clause_witness:
  "CHR ''-'' \<notin> set ''name'' \<and> CHR ''-'' \<notin> set ''asc'' \<and> signed_in backend_up world0 demo_user
   \<and> filter isOrder (createQueries demo_user [] '''' ''name-asc'' None) = [OrderAsc ''name'']
   \<and> (\<exists>earlier. new_requests world0 (getFiles backend_up (Some []) (Some '''') None None world0) =
         earlier @ [ListFiles (createQueries demo_user [] '''' '''' None @ [OrderDesc ''$createdAt''])])"
proof -
  have f: "CHR ''-'' \<notin> set ''name''" and ord: "CHR ''-'' \<notin> set ''asc''" by simp_all
  from createQueries_sort_clause [OF f ord, of demo_user "[]" "''''" None backend_up None None world0]
    signed_in_demo
  show ?thesis by (simp add: createQueries_no_sort)
qed

subsection \<open>The aggregation of \<open>getTotalSpaceUsed\<close>\<close>

lemma date_le_trans: "date_le D a b \<Longrightarrow> date_le D b c \<Longrightarrow> date_le D a c"
  by (auto simp: date_le_def split: option.splits)

lemma date_le_step:
  assumes "D d \<noteq> None" and "cur = '''' \<or> D cur \<noteq> None"
  shows "date_le D d (if cur = '''' \<or> date_gt D d cur then d else cur)"
    and "cur \<noteq> '''' \<Longrightarrow> date_le D cur (if cur = '''' \<or> date_gt D d cur then d else cur)"
  using assms by (auto simp: date_le_def date_gt_def split: option.splits)

lemma latest_greatest:
  assumes "\<forall>d \<in> set ds. d \<noteq> '''' \<and> D d \<noteq> None" and "cur = '''' \<or> D cur \<noteq> None"
  shows "(latest D cur ds = cur \<or> latest D cur ds \<in> set ds)
    \<and> (\<forall>d \<in> set ds. date_le D d (latest D cur ds))
    \<and> (cur \<noteq> '''' \<longrightarrow> date_le D cur (latest D cur ds))
    \<and> (ds \<noteq> [] \<longrightarrow> latest D cur ds \<noteq> '''')"
  using assms
proof (induction ds arbitrary: cur)
  case Nil
  then show ?case by (auto simp: date_le_def split: option.splits)
next
  case (Cons d ds)
  define nxt where "nxt = (if cur = '''' \<or> date_gt D d cur then d else cur)"
  define L where "L = latest D nxt ds"
  have L: "latest D cur (d # ds) = L" by (simp add: L_def nxt_def)
  have d: "d \<noteq> ''''" "D d \<noteq> None" using Cons.prems(1) by auto
  have nxt: "nxt \<noteq> ''''" "D nxt \<noteq> None" "nxt = d \<or> nxt = cur"
    using d Cons.prems(2) by (auto simp: nxt_def)
  have rest: "\<forall>x \<in> set ds. x \<noteq> '''' \<and> D x \<noteq> None" using Cons.prems(1) by simp
  have nv: "nxt = '''' \<or> D nxt \<noteq> None" using nxt(2) by simp
  from Cons.IH [OF rest nv] have
    a: "L = nxt \<or> L \<in> set ds"
    and b: "\<forall>x \<in> set ds. date_le D x L"
    and c: "date_le D nxt L"
    using nxt(1) unfolding L_def by blast+
  have d_next: "date_le D d nxt"
    unfolding nxt_def by (rule date_le_step(1) [OF d(2) Cons.prems(2)])
  have 1: "L = cur \<or> L \<in> set (d # ds)" using a nxt(3) by auto
  have "date_le D d L" by (rule date_le_trans [OF d_next c])
  with b have 2: "\<forall>x \<in> set (d # ds). date_le D x L" by simp
  have 3: "cur \<noteq> '''' \<longrightarrow> date_le D cur L"
  proof
    assume "cur \<noteq> ''''"
    then have "date_le D cur nxt"
      unfolding nxt_def by (rule date_le_step(2) [OF d(2) Cons.prems(2)])
    then show "date_le D cur L" by (rule date_le_trans [OF _ c])
  qed
  have 4: "L \<noteq> ''''"
    using c nxt(1) a rest by (cases "L = nxt") auto
  from 1 2 3 4 show ?case unfolding L by blast
qed

lemma addFile_Some:
  "usage ts (file_type f) = Some tu \<Longrightarrow>
   addFile D ts f =
     Inr (ts\<lparr>usage := (usage ts)(file_type f \<mapsto>
              \<lparr>usage_size = usage_size tu + file_size f,
               latestDate = (if latestDate tu = '''' \<or> date_gt D (file_updatedAt f) (latestDate tu)
                             then file_updatedAt f else latestDate tu)\<rparr>),
            used := used ts + file_size f\<rparr>)"
  by (cases tu) (simp add: addFile_def Let_def)

lemma forEach_addFile_result:
  assumes "\<forall>f \<in> set fs. file_type f \<in> dom (usage ts)"
  shows "\<exists>ts'. forEach_addFile D ts fs = Inr ts'
      \<and> used ts' = used ts + sum_list (map file_size fs)
      \<and> all' ts' = all' ts
      \<and> dom (usage ts') = dom (usage ts)
      \<and> (\<forall>t tu. usage ts t = Some tu \<longrightarrow>
            usage ts' t = Some \<lparr>usage_size = usage_size tu + sum_list (map file_size (ofType t fs)),
                                 latestDate = latest D (latestDate tu) (map file_updatedAt (ofType t fs))\<rparr>)"
  using assms
proof (induction fs arbitrary: ts)
  case Nil
  show ?case by (simp add: ofType_def)
next
  case (Cons f fs)
  from Cons.prems obtain tu0 where tu0: "usage ts (file_type f) = Some tu0" by auto
  define tu1 where "tu1 = \<lparr>usage_size = usage_size tu0 + file_size f,
      latestDate = (if latestDate tu0 = '''' \<or> date_gt D (file_updatedAt f) (latestDate tu0)
                    then file_updatedAt f else latestDate tu0)\<rparr>"
  define ts1 where "ts1 = ts\<lparr>usage := (usage ts)(file_type f \<mapsto> tu1), used := used ts + file_size f\<rparr>"
  have step: "addFile D ts f = Inr ts1"
    unfolding ts1_def tu1_def by (rule addFile_Some [OF tu0])
  have dom1: "dom (usage ts1) = dom (usage ts)"
    unfolding ts1_def using tu0 by auto
  have "\<forall>x \<in> set fs. file_type x \<in> dom (usage ts1)"
    using Cons.prems dom1 by simp
  from Cons.IH [OF this] obtain ts' where
    r: "forEach_addFile D ts1 fs = Inr ts'"
    and u: "used ts' = used ts1 + sum_list (map file_size fs)"
    and a: "all' ts' = all' ts1"
    and dm: "dom (usage ts') = dom (usage ts1)"
    and per: "\<forall>t tu. usage ts1 t = Some tu \<longrightarrow>
            usage ts' t = Some \<lparr>usage_size = usage_size tu + sum_list (map file_size (ofType t fs)),
                                 latestDate = latest D (latestDate tu) (map file_updatedAt (ofType t fs))\<rparr>"
    by blast
  have res: "forEach_addFile D ts (f # fs) = Inr ts'" using step r by simp
  have u': "used ts' = used ts + sum_list (map file_size (f # fs))"
    using u by (simp add: ts1_def)
  have a': "all' ts' = all' ts" using a by (simp add: ts1_def)
  have per': "usage ts' t =
        Some \<lparr>usage_size = usage_size tu + sum_list (map file_size (ofType t (f # fs))),
              latestDate = latest D (latestDate tu) (map file_updatedAt (ofType t (f # fs)))\<rparr>"
    if t: "usage ts t = Some tu" for t tu
  proof (cases "t = file_type f")
    case True
    then have "usage ts1 t = Some tu1" by (simp add: ts1_def)
    moreover have "tu = tu0" using t tu0 True by simp
    ultimately show ?thesis
      using per True by (simp add: tu1_def ofType_def)
  next
    case False
    then have "usage ts1 t = Some tu" using t by (simp add: ts1_def)
    then show ?thesis using per False by (auto simp: ofType_def)
  qed
  from res u' a' dm dom1 per' show ?case by auto
qed

lemma sum_by_type:
  assumes "\<forall>f \<in> set fs. file_type f \<in> set fileTypes"
  shows "sum_list (map file_size fs) =
      sum_list (map file_size (ofType ''image'' fs)) + sum_list (map file_size (ofType ''document'' fs))
      + sum_list (map file_size (ofType ''video'' fs)) + sum_list (map file_size (ofType ''audio'' fs))
      + sum_list (map file_size (ofType ''other'' fs))"
  using assms
proof (induction fs)
  case Nil
  show ?case by (simp add: ofType_def)
next
  case (Cons f fs)
  then have "file_type f \<in> set fileTypes" by simp
  then consider "file_type f = ''document''" | "file_type f = ''image''" | "file_type f = ''video''"
    | "file_type f = ''audio''" | "file_type f = ''other''"
    by (auto simp: fileTypes_def)
  then show ?case
    using Cons by cases (simp_all add: ofType_def)
qed

lemma initialTotalSpace_usage:
  "t \<in> set fileTypes \<Longrightarrow> usage initialTotalSpace t = Some \<lparr>usage_size = 0, latestDate = ''''\<rparr>"
  by (auto simp: fileTypes_def initialTotalSpace_def)

lemma initialTotalSpace_dom: "dom (usage initialTotalSpace) = set fileTypes"
  by (auto simp: fileTypes_def initialTotalSpace_def split: if_splits)

lemma getTotalSpaceUsed_returns:
  assumes "signed_in b w u"
    and "databases_listFiles b [Equal ''owner'' [user_id u]] = Inr fs"
    and "forEach_addFile D initialTotalSpace (documents fs) = Inr ts"
  shows "fst (getTotalSpaceUsed D b w) = Inr ts"
proof -
  from getCurrentUser_signed_in [OF assms(1)] obtain resultId where
    "getCurrentUser b w =
      (Inr (Val u), w\<lparr>requests := requests w @ [AccountGet, ListUsers [Equal ''accountId'' [resultId]]]\<rparr>)"
    by blast
  moreover have "\<exists>s. cookie w = Some s \<and> s \<noteq> ''''"
    using assms(1) by (auto simp: signed_in_def split: option.splits)
  ultimately show ?thesis
    using assms(2,3) by (auto simp: getTotalSpaceUsed_def action_simps)
qed

lemma addFile_inherited_key:
  "file_type f \<in> set objectPrototypeKeys \<Longrightarrow>
   addFile D initialTotalSpace f = Inr (initialTotalSpace\<lparr>used := file_size f\<rparr>)"
  by (auto simp: addFile_def initialTotalSpace_def objectPrototypeKeys_def)

lemma addFile_unknown_key:
  "file_type f \<notin> set fileTypes \<Longrightarrow> file_type f \<notin> set objectPrototypeKeys \<Longrightarrow>
   addFile D initialTotalSpace f = Inl TypeError"
  by (auto simp: addFile_def initialTotalSpace_def fileTypes_def)

text \<open>
  What the action computes from the documents the listing returned. For a signed-in user,
  when each of these documents has one of the five types and a valid, non-empty
  \<open>$updatedAt\<close>, the summary has as \<open>used\<close> the sum of their sizes, which is the sum of the
  five per-type sizes; every type has the sum of the sizes of its documents, and as
  \<open>latestDate\<close> the empty string when it has none and otherwise the \<open>$updatedAt\<close> of one of
  them that none of the type is later than; and \<open>all\<close> is \<open>2 * 1024 * 1024 * 1024\<close>.
\<close>

lemma getTotalSpaceUsed_aggregates:
  assumes "signed_in b w u"
    and "databases_listFiles b [Equal ''owner'' [user_id u]] = Inr fs"
    and "\<forall>f \<in> set (documents fs).
           file_type f \<in> set fileTypes \<and> file_updatedAt f \<noteq> '''' \<and> D (file_updatedAt f) \<noteq> None"
  shows "\<exists>ts. fst (getTotalSpaceUsed D b w) = Inr ts
      \<and> used ts = sum_list (map file_size (documents fs))
      \<and> used ts = typeSize ts ''image'' + typeSize ts ''document'' + typeSize ts ''video''
                    + typeSize ts ''audio'' + typeSize ts ''other''
      \<and> all' ts = 2 * 1024 * 1024 * 1024
      \<and> (\<forall>t \<in> set fileTypes. \<exists>tu. usage ts t = Some tu
            \<and> usage_size tu = sum_list (map file_size (ofType t (documents fs)))
            \<and> (ofType t (documents fs) = [] \<longrightarrow> latestDate tu = '''')
            \<and> (ofType t (documents fs) \<noteq> [] \<longrightarrow>
                  latestDate tu \<in> file_updatedAt ` set (ofType t (documents fs))
                  \<and> (\<forall>f \<in> set (ofType t (documents fs)).
                        date_le D (file_updatedAt f) (latestDate tu))))"
proof -
  let ?docs = "documents fs"
  have typed: "\<forall>f \<in> set ?docs. file_type f \<in> dom (usage initialTotalSpace)"
    using assms(3) by (simp add: initialTotalSpace_dom)
  from forEach_addFile_result [OF typed, of D] obtain ts where
    r: "forEach_addFile D initialTotalSpace ?docs = Inr ts"
    and u: "used ts = used initialTotalSpace + sum_list (map file_size ?docs)"
    and a: "all' ts = all' initialTotalSpace"
    and per: "\<forall>t tu. usage initialTotalSpace t = Some tu \<longrightarrow>
        usage ts t = Some \<lparr>usage_size = usage_size tu + sum_list (map file_size (ofType t ?docs)),
                            latestDate = latest D (latestDate tu) (map file_updatedAt (ofType t ?docs))\<rparr>"
    by blast
  have per': "usage ts t = Some \<lparr>usage_size = sum_list (map file_size (ofType t ?docs)),
                   latestDate = latest D '''' (map file_updatedAt (ofType t ?docs))\<rparr>"
    if "t \<in> set fileTypes" for t
    using per initialTotalSpace_usage [OF that] by simp
  have ret: "fst (getTotalSpaceUsed D b w) = Inr ts"
    by (rule getTotalSpaceUsed_returns [OF assms(1,2) r])
  have used: "used ts = sum_list (map file_size ?docs)"
    using u by (simp add: initialTotalSpace_def)
  have tsz: "typeSize ts t = sum_list (map file_size (ofType t ?docs))"
    if "t \<in> set fileTypes" for t
    using per' [OF that] by (simp add: typeSize_def)
  have "\<forall>f \<in> set ?docs. file_type f \<in> set fileTypes" using assms(3) by simp
  from sum_by_type [OF this]
  have split: "used ts = typeSize ts ''image'' + typeSize ts ''document'' + typeSize ts ''video''
                    + typeSize ts ''audio'' + typeSize ts ''other''"
    unfolding used
    by (simp add: tsz fileTypes_def)
  have quota: "all' ts = 2 * 1024 * 1024 * 1024"
    using a by (simp add: initialTotalSpace_def)
  have each: "\<exists>tu. usage ts t = Some tu
            \<and> usage_size tu = sum_list (map file_size (ofType t ?docs))
            \<and> (ofType t ?docs = [] \<longrightarrow> latestDate tu = '''')
            \<and> (ofType t ?docs \<noteq> [] \<longrightarrow>
                  latestDate tu \<in> file_updatedAt ` set (ofType t ?docs)
                  \<and> (\<forall>f \<in> set (ofType t ?docs). date_le D (file_updatedAt f) (latestDate tu)))"
    if t: "t \<in> set fileTypes" for t
  proof -
    let ?ds = "map file_updatedAt (ofType t ?docs)"
    have valid: "\<forall>d \<in> set ?ds. d \<noteq> '''' \<and> D d \<noteq> None"
      using assms(3) by (auto simp: ofType_def)
    from latest_greatest [OF valid, of "''''"] have
      g1: "latest D '''' ?ds = '''' \<or> latest D '''' ?ds \<in> set ?ds"
      and g2: "\<forall>d \<in> set ?ds. date_le D d (latest D '''' ?ds)"
      and g3: "?ds \<noteq> [] \<longrightarrow> latest D '''' ?ds \<noteq> ''''"
      by blast+
    have e: "ofType t ?docs = [] \<longrightarrow> latest D '''' ?ds = ''''" by simp
    have n: "ofType t ?docs \<noteq> [] \<longrightarrow>
        latest D '''' ?ds \<in> file_updatedAt ` set (ofType t ?docs)
        \<and> (\<forall>f \<in> set (ofType t ?docs). date_le D (file_updatedAt f) (latest D '''' ?ds))"
      using g1 g2 g3 by auto
    from per' [OF t] e n show ?thesis by simp
  qed
  from ret used split quota each show ?thesis by blast
qed

lemma many_files_owned: "owned_by (user_id demo_user) many_files = many_files"
  by (simp add: owned_by_def many_files_def demo_file_def demo_user_def
      del: upt_rec_numeral)

lemma many_files_valid:
  "\<forall>f \<in> set (take 25 many_files).
     file_type f \<in> set fileTypes \<and> file_updatedAt f \<noteq> ''''
     \<and> demo_Date (file_updatedAt f) \<noteq> None"
proof
  fix f
  assume "f \<in> set (take 25 many_files)"
  then have "f \<in> set many_files" by (rule in_set_takeD)
  then show "file_type f \<in> set fileTypes \<and> file_updatedAt f \<noteq> ''''
     \<and> demo_Date (file_updatedAt f) \<noteq> None"
    by (auto simp: many_files_def demo_file_def fileTypes_def demo_Date_def
        simp del: upt_rec_numeral)
qed

lemma many_files_sizes:
  "sum_list (map file_size many_files) = 26"
  "sum_list (map file_size (take 25 many_files)) = 25"
  by (simp_all add: many_files_def demo_file_def take_map comp_def sum_list_triv
      del: upt_rec_numeral)

lemma signed_in_paging: "signed_in (backend_paging page collection) world0 demo_user"
  by (simp add: signed_in_def backend_paging_def backend_up_def world0_def first_document_def)

text \<open>
  Claim C4 says that \<open>used\<close> is the sum of the sizes of all the files the user owns; so do
  the comments of the action (\<^verbatim>\<open>Get all files owned by the current user\<close>). The action
  sends one listing, with no limit and no cursor, and sums the documents that come back,
  whatever \<open>total\<close> says. For a user with 26 files of one byte each, on a backend that
  returns 25 documents for such a listing, \<open>total\<close> is 26, 25 documents are returned, and
  \<open>used\<close> is 25, not 26.
\<close>

theorem getTotalSpaceUsed_first_page_only:
  "sum_list (map file_size (owned_by (user_id demo_user) many_files)) = 26
   \<and> databases_listFiles (backend_paging 25 many_files) [Equal ''owner'' [user_id demo_user]]
        = Inr \<lparr>total = 26, documents = take 25 many_files\<rparr>
   \<and> map_sum id used (fst (getTotalSpaceUsed demo_Date (backend_paging 25 many_files) world0))
        = Inr 25"
proof -
  have own: "sum_list (map file_size (owned_by (user_id demo_user) many_files)) = 26"
    by (simp add: many_files_owned many_files_sizes)
  have "length many_files = 26" by (simp add: many_files_def)
  then have l: "databases_listFiles (backend_paging 25 many_files)
        [Equal ''owner'' [user_id demo_user]] = Inr \<lparr>total = 26, documents = take 25 many_files\<rparr>"
    by (simp add: backend_paging_def many_files_owned)
  have v: "\<forall>f \<in> set (documents \<lparr>total = 26, documents = take 25 many_files\<rparr>).
      file_type f \<in> set fileTypes \<and> file_updatedAt f \<noteq> ''''
      \<and> demo_Date (file_updatedAt f) \<noteq> None"
    using many_files_valid by simp
  from getTotalSpaceUsed_aggregates [OF signed_in_paging l v] obtain ts where
    "fst (getTotalSpaceUsed demo_Date (backend_paging 25 many_files) world0) = Inr ts"
    "used ts = sum_list (map file_size (documents \<lparr>total = 26, documents = take 25 many_files\<rparr>))"
    by blast
  then have "map_sum id used (fst (getTotalSpaceUsed demo_Date (backend_paging 25 many_files) world0))
        = Inr 25"
    by (simp add: many_files_sizes)
  with own l show ?thesis by blast
qed

subsection \<open>Failures of the backend\<close>

text \<open>
  Claim C3 says that after a failed metadata write the rollback is attempted and the error
  of the write is rethrown; the handler in the code ends with
  \<^verbatim>\<open>handleError(error, "Failed to create file document")\<close> to do so. The deletion before
  it is awaited unguarded: when it fails as well, that call is never reached, the error
  of the metadata write is neither logged nor thrown, and what is logged and thrown is the
  error of the deletion.
\<close>

theorem uploadFile_rollback_failure_masks_error:
  "storage_createFile
     (backend_up\<lparr>databases_createFile := (\<lambda>_. Inl (AppwriteException ''document_invalid_structure'')),
                  storage_deleteFile := (\<lambda>_. Inl (AppwriteException ''storage_unavailable''))\<rparr>)
     demo_upload = Inr \<lparr>bucket_file_id = ''b1'', bucket_file_name = ''notes.txt'', sizeOriginal = 12\<rparr>
   \<and> databases_createFile
     (backend_up\<lparr>databases_createFile := (\<lambda>_. Inl (AppwriteException ''document_invalid_structure'')),
                  storage_deleteFile := (\<lambda>_. Inl (AppwriteException ''storage_unavailable''))\<rparr>)
     (fileDocument demo_env
        \<lparr>bucket_file_id = ''b1'', bucket_file_name = ''notes.txt'', sizeOriginal = 12\<rparr> ''u1'' ''acc1'')
      = Inl (AppwriteException ''document_invalid_structure'')
   \<and> fst (uploadFile
        (backend_up\<lparr>databases_createFile := (\<lambda>_. Inl (AppwriteException ''document_invalid_structure'')),
                     storage_deleteFile := (\<lambda>_. Inl (AppwriteException ''storage_unavailable''))\<rparr>)
        demo_env demo_upload ''u1'' ''acc1'' ''/documents'' world0)
      = Inl (AppwriteException ''storage_unavailable'')
   \<and> bucket (snd (uploadFile
        (backend_up\<lparr>databases_createFile := (\<lambda>_. Inl (AppwriteException ''document_invalid_structure'')),
                     storage_deleteFile := (\<lambda>_. Inl (AppwriteException ''storage_unavailable''))\<rparr>)
        demo_env demo_upload ''u1'' ''acc1'' ''/documents'' world0))
      = [''b1'']
   \<and> console (snd (uploadFile
        (backend_up\<lparr>databases_createFile := (\<lambda>_. Inl (AppwriteException ''document_invalid_structure'')),
                     storage_deleteFile := (\<lambda>_. Inl (AppwriteException ''storage_unavailable''))\<rparr>)
        demo_env demo_upload ''u1'' ''acc1'' ''/documents'' world0))
      = [LogErrorMessage (AppwriteException ''storage_unavailable'') ''Failed to upload file'']"
  by (simp add: uploadFile_def action_simps backend_up_def demo_upload_def world0_def)

text \<open>
  The two paths after a failed metadata write. \<open>uploadFile\<close> sends exactly one further
  request, the deletion of the blob, and revalidates nothing. If the deletion succeeds,
  the blob is no longer in the bucket and the error of the metadata write is logged
  (by the inner and by the outer handler) and rethrown. If the deletion fails, the blob
  stays and the error of the deletion is logged and thrown.
\<close>

lemma uploadFile_rollback:
  assumes "storage_createFile b file = Inr bucketFile"
    and "databases_createFile b (fileDocument env bucketFile ownerId acct) = Inl e"
  shows "new_requests w (uploadFile b env file ownerId acct path w) =
        [StorageCreateFile file, CreateFileDocument (fileDocument env bucketFile ownerId acct),
         StorageDeleteFile (bucket_file_id bucketFile)]
    \<and> revalidated (snd (uploadFile b env file ownerId acct path w)) = revalidated w
    \<and> (storage_deleteFile b (bucket_file_id bucketFile) = Inr () \<longrightarrow>
          fst (uploadFile b env file ownerId acct path w) = Inl e
          \<and> bucket_file_id bucketFile \<notin> set (bucket (snd (uploadFile b env file ownerId acct path w)))
          \<and> new_log w (uploadFile b env file ownerId acct path w) =
              [LogErrorMessage e ''Failed to create file document'',
               LogErrorMessage e ''Failed to upload file''])
    \<and> (\<forall>e'. storage_deleteFile b (bucket_file_id bucketFile) = Inl e' \<longrightarrow>
          fst (uploadFile b env file ownerId acct path w) = Inl e'
          \<and> bucket (snd (uploadFile b env file ownerId acct path w)) =
              bucket w @ [bucket_file_id bucketFile]
          \<and> new_log w (uploadFile b env file ownerId acct path w) =
              [LogErrorMessage e' ''Failed to upload file''])"
  using uploadFile_rollback_requests [OF assms] uploadFile_rollback_done [OF assms]
    uploadFile_rollback_failed [OF assms]
  by blast

text \<open>
  Claim C2 says that no server action swallows a backend error. \<open>getCurrentUser\<close> does: when
  the backend rejects \<^verbatim>\<open>account.get()\<close>, the error is printed and the action returns
  \<open>undefined\<close>.
\<close>

theorem getCurrentUser_swallows_backend_error:
  "account_get (backend_down (AppwriteException ''service_unavailable'')) ''secret''
      = Inl (AppwriteException ''service_unavailable'')
   \<and> fst (getCurrentUser (backend_down (AppwriteException ''service_unavailable'')) world0)
      = Inr Undefined
   \<and> console (snd (getCurrentUser (backend_down (AppwriteException ''service_unavailable'')) world0))
      = [LogError (AppwriteException ''service_unavailable'')]"
  by (simp add: getCurrentUser_def action_simps backend_down_def world0_def)

text \<open>
  Claim C2, amended. A backend error is logged by \<open>handleError\<close> and rethrown to the caller
  in \<open>sendEmailOTP\<close>, \<open>verifySecret\<close>, \<open>signInUser\<close>, \<open>renameFile\<close>, \<open>updateFileUsers\<close>,
  \<open>deleteFile\<close>, on the storage upload of \<open>uploadFile\<close>, and on the file listing of \<open>getFiles\<close>
  and \<open>getTotalSpaceUsed\<close>. \<open>getCurrentUser\<close> instead logs the error and returns \<open>undefined\<close>,
  after which \<open>getFiles\<close> and \<open>getTotalSpaceUsed\<close> log and throw an error of their own;
  \<open>createAccount\<close> lets the errors of its own requests through without logging them;
  \<open>signOutUser\<close> logs the error and then throws the redirect of its \<^verbatim>\<open>finally\<close> block.
  No action sends any request twice: there is no retry.
\<close>

theorem backend_errors_in_actions:
  "(account_createEmailToken b mail = Inl e \<longrightarrow>
      logged_and_rethrown e ''Failed to send email OTP'' w (sendEmailOTP b mail w))
   \<and> (account_createSession b acct password = Inl e \<longrightarrow>
      logged_and_rethrown e ''Failed to verify OTP'' w (verifySecret b acct password w))
   \<and> (databases_listUsers b [Equal ''email'' [mail]] = Inl e \<longrightarrow>
      logged_and_rethrown e ''Failed to sign in user'' w (signInUser b mail w))
   \<and> (databases_listUsers b [Equal ''email'' [mail]] = Inr r \<and> 0 < total r
        \<and> first_document (documents r) = Val u' \<and> account_createEmailToken b mail = Inl e \<longrightarrow>
      logged_and_rethrown e ''Failed to sign in user'' w (signInUser b mail w))
   \<and> (databases_updateFile b fileId (SetName (name @ ''.'' @ ext)) = Inl e \<longrightarrow>
      logged_and_rethrown e ''Failed to rename file'' w (renameFile b fileId name ext path w))
   \<and> (databases_updateFile b fileId (SetUsers emails) = Inl e \<longrightarrow>
      logged_and_rethrown e ''Failed to update file users'' w
        (updateFileUsers b fileId emails path w))
   \<and> (databases_deleteFile b fileId = Inl e \<longrightarrow>
      logged_and_rethrown e ''Failed to delete file'' w (deleteFile b fileId bucketFileId path w))
   \<and> (databases_deleteFile b fileId = Inr True \<and> storage_deleteFile b bucketFileId = Inl e \<longrightarrow>
      logged_and_rethrown e ''Failed to delete file'' w (deleteFile b fileId bucketFileId path w))
   \<and> (storage_createFile b inputFile = Inl e \<longrightarrow>
      logged_and_rethrown e ''Failed to upload file'' w
        (uploadFile b env inputFile ownerId acct path w))
   \<and> (signed_in b w u
        \<and> databases_listFiles b (createQueries u types searchText sort' limit) = Inl e \<longrightarrow>
      logged_and_rethrown e ''Failed to get files'' w
        (getFiles b (Some types) (Some searchText) (Some sort') limit w))
   \<and> (signed_in b w u \<and> databases_listFiles b [Equal ''owner'' [user_id u]] = Inl e \<longrightarrow>
      logged_and_rethrown e ''Error calculating total space used'' w (getTotalSpaceUsed D b w))
   \<and> (cookie w = Some s \<and> s \<noteq> '''' \<and> account_get b s = Inl e \<longrightarrow>
      fst (getCurrentUser b w) = Inr Undefined
      \<and> new_log w (getCurrentUser b w) = [LogError e]
      \<and> fst (getFiles b (Some types) (Some searchText) (Some sort') limit w)
          = Inl (Error ''User not found'')
      \<and> new_log w (getFiles b (Some types) (Some searchText) (Some sort') limit w)
          = [LogError e, LogErrorMessage (Error ''User not found'') ''Failed to get files'']
      \<and> fst (getTotalSpaceUsed D b w) = Inl (Error ''User is not authenticated.'')
      \<and> new_log w (getTotalSpaceUsed D b w)
          = [LogError e, LogErrorMessage (Error ''User is not authenticated.'')
                           ''Error calculating total space used''])
   \<and> (cookie w = Some s \<and> s \<noteq> '''' \<and> account_get b s = Inr resultId
        \<and> databases_listUsers b [Equal ''accountId'' [resultId]] = Inl e \<longrightarrow>
      fst (getCurrentUser b w) = Inr Undefined
      \<and> new_log w (getCurrentUser b w) = [LogError e])
   \<and> (databases_listUsers b [Equal ''email'' [mail]] = Inl e \<longrightarrow>
      fst (createAccount b name mail w) = Inl e \<and> new_log w (createAccount b name mail w) = [])
   \<and> (databases_listUsers b [Equal ''email'' [mail]] = Inr r \<and> total r = 0
        \<and> account_createEmailToken b mail = Inr newAccountId \<and> newAccountId \<noteq> ''''
        \<and> databases_createUser b \<lparr>fullName = name, email = mail, avatar = avatarPlaceholderUrl,
                                     accountId = newAccountId\<rparr> = Inl e \<longrightarrow>
      fst (createAccount b name mail w) = Inl e \<and> new_log w (createAccount b name mail w) = [])
   \<and> (cookie w = Some s \<and> s \<noteq> '''' \<and> account_deleteSession b ''current'' = Inl e \<longrightarrow>
      fst (signOutUser b w) = Inl (NextRedirect ''/sign-in'')
      \<and> new_log w (signOutUser b w) = [LogErrorMessage e ''Failed to sign out user''])
   \<and> distinct (new_requests w (sendEmailOTP b mail w))
   \<and> distinct (new_requests w (createAccount b name mail w))
   \<and> distinct (new_requests w (verifySecret b acct password w))
   \<and> distinct (new_requests w (getCurrentUser b w))
   \<and> distinct (new_requests w (signOutUser b w))
   \<and> distinct (new_requests w (signInUser b mail w))
   \<and> distinct (new_requests w (uploadFile b env inputFile ownerId acct path w))
   \<and> distinct (new_requests w (getFiles b types_opt searchText_opt sort_opt limit w))
   \<and> distinct (new_requests w (renameFile b fileId name ext path w))
   \<and> distinct (new_requests w (updateFileUsers b fileId emails path w))
   \<and> distinct (new_requests w (deleteFile b fileId bucketFileId path w))
   \<and> distinct (new_requests w (getTotalSpaceUsed D b w))"
  using getFiles_rethrows [of b w u types searchText sort' limit e]
    getTotalSpaceUsed_rethrows [of b w u e D]
  by (simp add: sendEmailOTP_rethrows verifySecret_rethrows signInUser_rethrows_lookup
      signInUser_rethrows_otp renameFile_rethrows updateFileUsers_rethrows
      deleteFile_rethrows_document deleteFile_rethrows_blob uploadFile_rethrows_blob
      getCurrentUser_swallows_account
      getCurrentUser_swallows_lookup getFiles_after_swallow getTotalSpaceUsed_after_swallow
      createAccount_unlogged_lookup createAccount_unlogged_create signOutUser_redirects
      sendEmailOTP_requests createAccount_no_retry verifySecret_no_retry
      getCurrentUser_no_retry signOutUser_no_retry signInUser_no_retry uploadFile_no_retry
      getFiles_no_retry renameFile_no_retry updateFileUsers_no_retry deleteFile_no_retry
      getTotalSpaceUsed_no_retry)

lemma signed_in_partial: "signed_in (backend_partial e) world0 demo_user"
  by (simp add: signed_in_def backend_partial_def backend_up_def world0_def first_document_def)

theorem backend_errors_in_actions_witness:
  "logged_and_rethrown unavailable ''Failed to send email OTP'' world0
      (sendEmailOTP (backend_down unavailable) ''ada@example.com'' world0)
   \<and> logged_and_rethrown unavailable ''Failed to verify OTP'' world0
      (verifySecret (backend_down unavailable) ''acc1'' ''123456'' world0)
   \<and> logged_and_rethrown unavailable ''Failed to sign in user'' world0
      (signInUser (backend_down unavailable) ''ada@example.com'' world0)
   \<and> logged_and_rethrown unavailable ''Failed to sign in user'' world0
      (signInUser (backend_partial unavailable) ''ada@example.com'' world0)
   \<and> logged_and_rethrown unavailable ''Failed to rename file'' world0
      (renameFile (backend_down unavailable) ''f1'' ''notes'' ''txt'' ''/documents'' world0)
   \<and> logged_and_rethrown unavailable ''Failed to update file users'' world0
      (updateFileUsers (backend_down unavailable) ''f1'' [''bob@example.com''] ''/documents'' world0)
   \<and> logged_and_rethrown unavailable ''Failed to delete file'' world0
      (deleteFile (backend_down unavailable) ''f1'' ''b1'' ''/documents'' world0)
   \<and> logged_and_rethrown unavailable ''Failed to delete file'' world0
      (deleteFile (backend_partial unavailable) ''f1'' ''b1'' ''/documents'' world0)
   \<and> logged_and_rethrown unavailable ''Failed to upload file'' world0
      (uploadFile (backend_down unavailable) demo_env demo_upload ''u1'' ''acc1'' ''/documents'' world0)
   \<and> logged_and_rethrown unavailable ''Failed to get files'' world0
      (getFiles (backend_partial unavailable) (Some []) (Some '''') (Some ''name-asc'') None world0)
   \<and> logged_and_rethrown unavailable ''Error calculating total space used'' world0
      (getTotalSpaceUsed demo_Date (backend_partial unavailable) world0)
   \<and> fst (getCurrentUser (backend_down unavailable) world0) = Inr Undefined
   \<and> fst (getFiles (backend_down unavailable) (Some []) (Some '''') (Some ''name-asc'') None world0)
        = Inl (Error ''User not found'')
   \<and> fst (getTotalSpaceUsed demo_Date (backend_down unavailable) world0)
        = Inl (Error ''User is not authenticated.'')
   \<and> fst (getCurrentUser (backend_no_users unavailable) world0) = Inr Undefined
   \<and> fst (createAccount (backend_down unavailable) ''Ada'' ''ada@example.com'' world0)
        = Inl unavailable
   \<and> new_log world0 (createAccount (backend_down unavailable) ''Ada'' ''ada@example.com'' world0) = []
   \<and> fst (createAccount (backend_new_user unavailable) ''Ada'' ''ada@example.com'' world0)
        = Inl unavailable
   \<and> new_log world0 (createAccount (backend_new_user unavailable) ''Ada'' ''ada@example.com'' world0) = []
   \<and> fst (signOutUser (backend_down unavailable) world0) = Inl (NextRedirect ''/sign-in'')"
proof -
  note down = backend_errors_in_actions
    [where b = "backend_down unavailable" and e = unavailable and w = world0
       and mail = "''ada@example.com''" and acct = "''acc1''" and password = "''123456''"
       and fileId = "''f1''" and name = "''notes''" and ext = "''txt''" and path = "''/documents''"
       and emails = "[''bob@example.com'']" and bucketFileId = "''b1''"
       and inputFile = demo_upload and env = demo_env and ownerId = "''u1''"
       and types = "[]" and searchText = "''''" and sort' = "''name-asc''" and limit = None
       and D = demo_Date and s = "''secret''" and u = demo_user and u' = demo_user
       and r = "\<lparr>total = 1, documents = [demo_user]\<rparr>" and resultId = "''acc1''"
       and newAccountId = "''acc1''" and types_opt = None and searchText_opt = None
       and sort_opt = None]
  note partial = backend_errors_in_actions
    [where b = "backend_partial unavailable" and e = unavailable and w = world0
       and mail = "''ada@example.com''" and acct = "''acc1''" and password = "''123456''"
       and fileId = "''f1''" and name = "''notes''" and ext = "''txt''" and path = "''/documents''"
       and emails = "[''bob@example.com'']" and bucketFileId = "''b1''"
       and inputFile = demo_upload and env = demo_env and ownerId = "''u1''"
       and types = "[]" and searchText = "''''" and sort' = "''name-asc''" and limit = None
       and D = demo_Date and s = "''secret''" and u = demo_user and u' = demo_user
       and r = "\<lparr>total = 1, documents = [demo_user]\<rparr>" and resultId = "''acc1''"
       and newAccountId = "''acc1''" and types_opt = None and searchText_opt = None
       and sort_opt = None]
  note no_users = backend_errors_in_actions
    [where b = "backend_no_users unavailable" and e = unavailable and w = world0
       and mail = "''ada@example.com''" and acct = "''acc1''" and password = "''123456''"
       and fileId = "''f1''" and name = "''notes''" and ext = "''txt''" and path = "''/documents''"
       and emails = "[''bob@example.com'']" and bucketFileId = "''b1''"
       and inputFile = demo_upload and env = demo_env and ownerId = "''u1''"
       and types = "[]" and searchText = "''''" and sort' = "''name-asc''" and limit = None
       and D = demo_Date and s = "''secret''" and u = demo_user and u' = demo_user
       and r = "\<lparr>total = 1, documents = [demo_user]\<rparr>" and resultId = "''acc1''"
       and newAccountId = "''acc1''" and types_opt = None and searchText_opt = None
       and sort_opt = None]
  note new_user = backend_errors_in_actions
    [where b = "backend_new_user unavailable" and e = unavailable and w = world0
       and mail = "''ada@example.com''" and acct = "''acc1''" and password = "''123456''"
       and fileId = "''f1''" and name = "''Ada''" and ext = "''txt''" and path = "''/documents''"
       and emails = "[''bob@example.com'']" and bucketFileId = "''b1''"
       and inputFile = demo_upload and env = demo_env and ownerId = "''u1''"
       and types = "[]" and searchText = "''''" and sort' = "''name-asc''" and limit = None
       and D = demo_Date and s = "''secret''" and u = demo_user and u' = demo_user
       and r = "\<lparr>total = 0, documents = []\<rparr>" and resultId = "''acc1''"
       and newAccountId = "''acc1''" and types_opt = None and searchText_opt = None
       and sort_opt = None]
  note down' = backend_errors_in_actions
    [where b = "backend_down unavailable" and e = unavailable and w = world0
       and mail = "''ada@example.com''" and acct = "''acc1''" and password = "''123456''"
       and fileId = "''f1''" and name = "''Ada''" and ext = "''txt''" and path = "''/documents''"
       and emails = "[''bob@example.com'']" and bucketFileId = "''b1''"
       and inputFile = demo_upload and env = demo_env and ownerId = "''u1''"
       and types = "[]" and searchText = "''''" and sort' = "''name-asc''" and limit = None
       and D = demo_Date and s = "''secret''" and u = demo_user and u' = demo_user
       and r = "\<lparr>total = 1, documents = [demo_user]\<rparr>" and resultId = "''acc1''"
       and newAccountId = "''acc1''" and types_opt = None and searchText_opt = None
       and sort_opt = None]
  have hd: "account_createEmailToken (backend_down unavailable) ''ada@example.com'' = Inl unavailable"
    "account_createSession (backend_down unavailable) ''acc1'' ''123456'' = Inl unavailable"
    "databases_listUsers (backend_down unavailable) [Equal ''email'' [''ada@example.com'']] = Inl unavailable"
    "databases_updateFile (backend_down unavailable) ''f1'' (SetName (''notes'' @ ''.'' @ ''txt'')) = Inl unavailable"
    "databases_updateFile (backend_down unavailable) ''f1'' (SetUsers [''bob@example.com'']) = Inl unavailable"
    "databases_deleteFile (backend_down unavailable) ''f1'' = Inl unavailable"
    "storage_createFile (backend_down unavailable) demo_upload = Inl unavailable"
    "account_get (backend_down unavailable) ''secret'' = Inl unavailable"
    "account_deleteSession (backend_down unavailable) ''current'' = Inl unavailable"
    "cookie world0 = Some ''secret''"
    by (simp_all add: backend_down_def world0_def)
  have hp: "databases_listUsers (backend_partial unavailable) [Equal ''email'' [''ada@example.com'']]
        = Inr \<lparr>total = 1, documents = [demo_user]\<rparr>"
    "first_document (documents \<lparr>total = 1, documents = [demo_user]\<rparr>) = Val demo_user"
    "account_createEmailToken (backend_partial unavailable) ''ada@example.com'' = Inl unavailable"
    "databases_deleteFile (backend_partial unavailable) ''f1'' = Inr True"
    "storage_deleteFile (backend_partial unavailable) ''b1'' = Inl unavailable"
    "databases_listFiles (backend_partial unavailable) (createQueries demo_user [] '''' ''name-asc'' None)
        = Inl unavailable"
    "databases_listFiles (backend_partial unavailable) [Equal ''owner'' [user_id demo_user]] = Inl unavailable"
    by (simp_all add: backend_partial_def backend_up_def first_document_def)
  have hn: "account_get (backend_no_users unavailable) ''secret'' = Inr ''acc1''"
    "databases_listUsers (backend_no_users unavailable) [Equal ''accountId'' [''acc1'']] = Inl unavailable"
    by (simp_all add: backend_no_users_def backend_up_def)
  have hu: "databases_listUsers (backend_new_user unavailable) [Equal ''email'' [''ada@example.com'']]
        = Inr \<lparr>total = 0, documents = []\<rparr>"
    "account_createEmailToken (backend_new_user unavailable) ''ada@example.com'' = Inr ''acc1''"
    "databases_createUser (backend_new_user unavailable)
        \<lparr>fullName = ''Ada'', email = ''ada@example.com'', avatar = avatarPlaceholderUrl,
          accountId = ''acc1''\<rparr> = Inl unavailable"
    by (simp_all add: backend_new_user_def backend_up_def)
  from down hd have c1:
    "logged_and_rethrown unavailable ''Failed to send email OTP'' world0
        (sendEmailOTP (backend_down unavailable) ''ada@example.com'' world0)"
    "logged_and_rethrown unavailable ''Failed to verify OTP'' world0
        (verifySecret (backend_down unavailable) ''acc1'' ''123456'' world0)"
    "logged_and_rethrown unavailable ''Failed to sign in user'' world0
        (signInUser (backend_down unavailable) ''ada@example.com'' world0)"
    "logged_and_rethrown unavailable ''Failed to rename file'' world0
        (renameFile (backend_down unavailable) ''f1'' ''notes'' ''txt'' ''/documents'' world0)"
    "logged_and_rethrown unavailable ''Failed to update file users'' world0
        (updateFileUsers (backend_down unavailable) ''f1'' [''bob@example.com''] ''/documents'' world0)"
    "logged_and_rethrown unavailable ''Failed to delete file'' world0
        (deleteFile (backend_down unavailable) ''f1'' ''b1'' ''/documents'' world0)"
    "logged_and_rethrown unavailable ''Failed to upload file'' world0
        (uploadFile (backend_down unavailable) demo_env demo_upload ''u1'' ''acc1'' ''/documents'' world0)"
    "fst (getCurrentUser (backend_down unavailable) world0) = Inr Undefined"
    "fst (getFiles (backend_down unavailable) (Some []) (Some '''') (Some ''name-asc'') None world0)
        = Inl (Error ''User not found'')"
    "fst (getTotalSpaceUsed demo_Date (backend_down unavailable) world0)
        = Inl (Error ''User is not authenticated.'')"
    "fst (signOutUser (backend_down unavailable) world0) = Inl (NextRedirect ''/sign-in'')"
    by simp_all
  from down' hd have c2:
    "fst (createAccount (backend_down unavailable) ''Ada'' ''ada@example.com'' world0) = Inl unavailable"
    "new_log world0 (createAccount (backend_down unavailable) ''Ada'' ''ada@example.com'' world0) = []"
    by simp_all
  from partial hp signed_in_partial [of unavailable] have c3:
    "logged_and_rethrown unavailable ''Failed to sign in user'' world0
        (signInUser (backend_partial unavailable) ''ada@example.com'' world0)"
    "logged_and_rethrown unavailable ''Failed to delete file'' world0
        (deleteFile (backend_partial unavailable) ''f1'' ''b1'' ''/documents'' world0)"
    "logged_and_rethrown unavailable ''Failed to get files'' world0
        (getFiles (backend_partial unavailable) (Some []) (Some '''') (Some ''name-asc'') None world0)"
    "logged_and_rethrown unavailable ''Error calculating total space used'' world0
        (getTotalSpaceUsed demo_Date (backend_partial unavailable) world0)"
    by simp_all
  from no_users hn hd(10) have c4:
    "fst (getCurrentUser (backend_no_users unavailable) world0) = Inr Undefined"
    by simp
  from new_user hu have c5:
    "fst (createAccount (backend_new_user unavailable) ''Ada'' ''ada@example.com'' world0) = Inl unavailable"
    "new_log world0 (createAccount (backend_new_user unavailable) ''Ada'' ''ada@example.com'' world0) = []"
    by simp_all
  from c1 c2 c3 c4 c5 show ?thesis by simp
qed

end
